theory Spec2Isabelle
  imports Main "HOL-Library.AList"
begin

section \<open>The agent scripts: data model\<close>

text \<open>
  The repository holds two scripts that drive a hosted agent service: \<^verbatim>\<open>main.py\<close>, a
  one-shot command line script, and \<^verbatim>\<open>mainchat.py\<close>, a chat handler
  (\<^verbatim>\<open>AzureAIAgentHandler\<close>). Everything the scripts call in the SDK is external to
  the repository. The embedding therefore takes the service as a parameter: a record of
  state transformers over an arbitrary world type \<open>'w\<close>, each of which either
  returns a value or raises. The scripts themselves are translated statement by
  statement; what they do to the outside (console lines, service calls) is appended to a
  trace of events, in program order.
\<close>

subsection \<open>Exceptions\<close>

text \<open>
  A raised Python exception. \<open>Exception m\<close> is an instance of the class
  \<^verbatim>\<open>Exception\<close> whose \<^verbatim>\<open>str()\<close> is \<open>m\<close>; this is what
  \<^verbatim>\<open>except Exception\<close> catches. \<open>BaseExceptionOnly m\<close> is an exception outside
  that class (\<^verbatim>\<open>asyncio.CancelledError\<close>, \<^verbatim>\<open>KeyboardInterrupt\<close>,
  \<^verbatim>\<open>SystemExit\<close>), which \<^verbatim>\<open>except Exception\<close> lets through.
\<close>

datatype exn = Exception string | BaseExceptionOnly string

text \<open>The test \<^verbatim>\<open>isinstance(e, Exception)\<close>.\<close>

fun is_Exception :: "exn \<Rightarrow> bool" where
  "is_Exception (Exception m) = True"
| "is_Exception (BaseExceptionOnly m) = False"

subsection \<open>Records of the service\<close>

text \<open>
  The scripts read only a few fields of the service's records. A tool call is one of
  the SDK's \<^verbatim>\<open>RequiredToolCall\<close> subclasses; the scripts test for
  \<^verbatim>\<open>RequiredMcpToolCall\<close> (the discriminator \<open>is_RequiredMcpToolCall\<close>) and read
  \<^verbatim>\<open>id\<close>.
\<close>

datatype tool_call = RequiredMcpToolCall (tc_id: string) | RequiredFunctionToolCall (tc_id: string)

text \<open>
  \<^verbatim>\<open>run.required_action\<close>: absent, a request for tool outputs, or a request for
  tool approvals carrying \<^verbatim>\<open>submit_tool_approval.tool_calls\<close>.
\<close>

datatype required_action =
  NoAction
| SubmitToolOutputsAction "tool_call list"
| SubmitToolApprovalAction "tool_call list"

text \<open>
  \<^verbatim>\<open>status\<close> is the service's status string; \<^verbatim>\<open>last_error\<close> is the text
  that formatting \<^verbatim>\<open>run.last_error\<close> into an f-string yields.
\<close>

record run =
  run_id :: string
  status :: string
  required_action :: required_action
  last_error :: string

text \<open>\<^verbatim>\<open>ToolApproval(tool_call_id=..., approve=..., headers=...)\<close>.\<close>

record tool_approval =
  tool_call_id :: string
  approve :: bool
  headers :: "(string \<times> string) list"

text \<open>
  \<^verbatim>\<open>McpTool\<close>: the label and URL it was built with, the header dictionary behind
  its \<^verbatim>\<open>headers\<close> property, and the approval mode (\<^verbatim>\<open>"always"\<close> when built).
\<close>

record mcp_tool =
  server_label :: string
  server_url :: string
  mcp_headers :: "(string \<times> string) list"
  require_approval :: string

definition McpTool :: "string \<Rightarrow> string \<Rightarrow> mcp_tool" where
  "McpTool label url =
     \<lparr>server_label = label, server_url = url, mcp_headers = [], require_approval = ''always''\<rparr>"

definition update_headers :: "string \<Rightarrow> string \<Rightarrow> mcp_tool \<Rightarrow> mcp_tool" where
  "update_headers k v t = t\<lparr>mcp_headers := AList.update k v (mcp_headers t)\<rparr>"

definition set_approval_mode :: "string \<Rightarrow> mcp_tool \<Rightarrow> mcp_tool" where
  "set_approval_mode m t = t\<lparr>require_approval := m\<rparr>"

text \<open>
  A message of the thread: \<^verbatim>\<open>msg.role\<close> and the \<^verbatim>\<open>text.value\<close> of each
  element of \<^verbatim>\<open>msg.text_messages\<close>.
\<close>

record thread_message =
  role :: string
  text_messages :: "string list"

text \<open>
  A run step as \<^verbatim>\<open>main.py\<close> prints it: \<^verbatim>\<open>step['id']\<close>,
  \<^verbatim>\<open>step['status']\<close>, and for each entry of
  \<^verbatim>\<open>step_details.get("tool_calls", [])\<close> the printed forms of
  \<^verbatim>\<open>call.get('id')\<close> and \<^verbatim>\<open>call.get('type')\<close>.
\<close>

record run_step =
  step_id :: string
  step_status :: string
  step_tool_calls :: "(string \<times> string) list"

subsection \<open>Events and the service\<close>

text \<open>What a script does to the outside, one event per console line or SDK call.\<close>

datatype event =
  Print string
| Sleep nat
| CreateAgent string string string mcp_tool
| ThreadsCreate
| MessagesCreate string string string
| RunsCreate string string mcp_tool
| RunsGet string string
| RunsCancel string string
| SubmitToolOutputs string string "tool_approval list"
| RunStepsList string string
| MessagesList string
| ClientClose

text \<open>
  The external service and SDK: every call takes the world and returns either an
  exception or a value, with the next world. \<open>sleep\<close> stands for
  \<^verbatim>\<open>time.sleep\<close> in \<^verbatim>\<open>main.py\<close> and for the awaited
  \<^verbatim>\<open>asyncio.sleep\<close> in \<^verbatim>\<open>mainchat.py\<close>, where a cancelled task receives
  \<^verbatim>\<open>CancelledError\<close>. \<open>ToolApproval_raises\<close> tells whether building the approval
  record for a tool call raises an \<^verbatim>\<open>Exception\<close>, and with which text; the last
  two fields are the printed forms of SDK objects.
\<close>

record 'w agents_client =
  sleep :: "nat \<Rightarrow> 'w \<Rightarrow> (exn + unit) \<times> 'w"
  create_agent :: "string \<Rightarrow> string \<Rightarrow> string \<Rightarrow> mcp_tool \<Rightarrow> 'w \<Rightarrow> (exn + string) \<times> 'w"
  threads_create :: "'w \<Rightarrow> (exn + string) \<times> 'w"
  messages_create :: "string \<Rightarrow> string \<Rightarrow> string \<Rightarrow> 'w \<Rightarrow> (exn + string) \<times> 'w"
  runs_create :: "string \<Rightarrow> string \<Rightarrow> mcp_tool \<Rightarrow> 'w \<Rightarrow> (exn + run) \<times> 'w"
  runs_get :: "string \<Rightarrow> string \<Rightarrow> 'w \<Rightarrow> (exn + run) \<times> 'w"
  runs_cancel :: "string \<Rightarrow> string \<Rightarrow> 'w \<Rightarrow> (exn + unit) \<times> 'w"
  submit_tool_outputs :: "string \<Rightarrow> string \<Rightarrow> tool_approval list \<Rightarrow> 'w \<Rightarrow> (exn + unit) \<times> 'w"
  run_steps_list :: "string \<Rightarrow> string \<Rightarrow> 'w \<Rightarrow> (exn + run_step list) \<times> 'w"
  messages_list :: "string \<Rightarrow> 'w \<Rightarrow> (exn + thread_message list) \<times> 'w"
  ToolApproval_raises :: "tool_call \<Rightarrow> string option"
  str_tool_call :: "tool_call \<Rightarrow> string"
  str_tool_approvals :: "tool_approval list \<Rightarrow> string"

text \<open>The state of a script: the world of the service and the trace so far.\<close>

type_synonym 'w st = "'w \<times> event list"

type_synonym ('w, 'a) io = "'w st \<Rightarrow> (exn + 'a) \<times> 'w st"

definition return :: "'a \<Rightarrow> ('w, 'a) io" where
  "return a s = (Inr a, s)"

definition raise :: "exn \<Rightarrow> ('w, 'a) io" where
  "raise e s = (Inl e, s)"

text \<open>Sequencing: an exception of the first statement skips the rest.\<close>

definition bindE :: "('w, 'a) io \<Rightarrow> ('a \<Rightarrow> ('w, 'b) io) \<Rightarrow> ('w, 'b) io" where
  "bindE m f s = (case m s of (Inl e, s') \<Rightarrow> (Inl e, s') | (Inr a, s') \<Rightarrow> f a s')"

definition print :: "string \<Rightarrow> ('w, unit) io" where
  "print l s = (Inr (), (fst s, snd s @ [Print l]))"

text \<open>An SDK call: the event is recorded, then the service answers.\<close>

definition call :: "event \<Rightarrow> ('w \<Rightarrow> (exn + 'a) \<times> 'w) \<Rightarrow> ('w, 'a) io" where
  "call ev f s = (case f (fst s) of (r, w') \<Rightarrow> (r, (w', snd s @ [ev])))"

section \<open>Configuration from the environment\<close>

text \<open>
  \<^verbatim>\<open>os.environ\<close> is a dictionary from names to strings. Python's truth test on the
  result of \<^verbatim>\<open>os.environ.get\<close> fails for an absent variable and for an empty string.
\<close>

type_synonym environ = "string \<rightharpoonup> string"

definition truthy :: "string option \<Rightarrow> bool" where
  "truthy v = (case v of None \<Rightarrow> False | Some x \<Rightarrow> x \<noteq> [])"

definition required_vars :: "string list" where
  "required_vars = [''PROJECT_ENDPOINT'', ''MODEL_DEPLOYMENT_NAME'', ''MCP_SERVER_URL'', ''MCP_SERVER_LABEL'']"

definition missing_vars :: "environ \<Rightarrow> string list" where
  "missing_vars env = filter (\<lambda>var. \<not> truthy (env var)) required_vars"

text \<open>\<^verbatim>\<open>sep.join(xs)\<close>.\<close>

fun join :: "string \<Rightarrow> string list \<Rightarrow> string" where
  "join sep [] = []"
| "join sep [x] = x"
| "join sep (x # y # ys) = x @ sep @ join sep (y # ys)"

definition missing_message :: "environ \<Rightarrow> string" where
  "missing_message env = ''Missing required environment variables: '' @ join '', '' (missing_vars env)"

text \<open>
  The value of a required variable. It is read only behind the check of the required
  variables, where the variable is present and not empty.
\<close>

definition env_value :: "environ \<Rightarrow> string \<Rightarrow> string" where
  "env_value env var = (case env var of Some x \<Rightarrow> x | None \<Rightarrow> [])"

text \<open>
  Lines 64 to 67 of \<^verbatim>\<open>main.py\<close>, 77 to 80 of \<^verbatim>\<open>mainchat.py\<close>: the
  \<^verbatim>\<open>Authorization\<close> header is set when the token is truthy; otherwise a warning is
  printed and the tool is left as it is.
\<close>

definition configure_headers :: "string option \<Rightarrow> mcp_tool \<Rightarrow> 'w st \<Rightarrow> mcp_tool \<times> 'w st" where
  "configure_headers mcp_server_token t s =
     (case mcp_server_token of
        Some token \<Rightarrow>
          if token \<noteq> [] then (update_headers ''Authorization'' (''Bearer '' @ token) t, s)
          else (t, (fst s, snd s @ [Print ''Warning: No MCP_SERVER_TOKEN found in environment variables'']))
      | None \<Rightarrow>
          (t, (fst s, snd s @ [Print ''Warning: No MCP_SERVER_TOKEN found in environment variables''])))"

section \<open>The approval loop\<close>

definition active_statuses :: "string list" where
  "active_statuses = [''queued'', ''in_progress'', ''requires_action'']"

fun isinstance_SubmitToolApprovalAction :: "required_action \<Rightarrow> bool" where
  "isinstance_SubmitToolApprovalAction (SubmitToolApprovalAction tcs) = True"
| "isinstance_SubmitToolApprovalAction a = False"

text \<open>\<^verbatim>\<open>run.required_action.submit_tool_approval.tool_calls\<close>, read behind the
  \<^verbatim>\<open>isinstance\<close> test.\<close>

fun submit_tool_approval_tool_calls :: "required_action \<Rightarrow> tool_call list" where
  "submit_tool_approval_tool_calls (SubmitToolApprovalAction tcs) = tcs"
| "submit_tool_approval_tool_calls a = []"

text \<open>How an iteration of the \<^verbatim>\<open>while\<close> loop ends: it falls through to the loop
  test with the fetched run, or leaves by \<^verbatim>\<open>break\<close>.\<close>

datatype loop_ctl = Continue run | Break run

subsection \<open>\<^verbatim>\<open>main.py\<close>, lines 108 to 141\<close>

text \<open>
  The \<^verbatim>\<open>for tool_call in tool_calls\<close> loop of lines 120 to 132, with the list
  \<^verbatim>\<open>tool_approvals\<close> as accumulator.
\<close>

fun main_for_tool_calls ::
  "'w agents_client \<Rightarrow> (string \<times> string) list \<Rightarrow> tool_call list \<Rightarrow> tool_approval list \<Rightarrow> ('w, tool_approval list) io"
where
  "main_for_tool_calls C hs [] tool_approvals = return tool_approvals"
| "main_for_tool_calls C hs (tool_call # rest) tool_approvals =
     (if is_RequiredMcpToolCall tool_call then
        bindE (print (''Approving tool call: '' @ str_tool_call C tool_call)) (\<lambda>_.
          case ToolApproval_raises C tool_call of
            None \<Rightarrow>
              main_for_tool_calls C hs rest
                (tool_approvals @ [\<lparr>tool_call_id = tc_id tool_call, approve = True, headers = hs\<rparr>])
          | Some e \<Rightarrow>
              bindE (print (''Error approving tool_call '' @ tc_id tool_call @ '': '' @ e)) (\<lambda>_.
                main_for_tool_calls C hs rest tool_approvals))
      else main_for_tool_calls C hs rest tool_approvals)"

text \<open>Lines 112 to 138: the body of the \<^verbatim>\<open>if\<close>; the result tells whether it left
  by \<^verbatim>\<open>break\<close>.\<close>

definition main_handle_approvals ::
  "'w agents_client \<Rightarrow> mcp_tool \<Rightarrow> string \<Rightarrow> run \<Rightarrow> ('w, bool) io"
where
  "main_handle_approvals C mcp thread_id run =
     (let tool_calls = submit_tool_approval_tool_calls (required_action run) in
      if tool_calls = [] then
        bindE (print ''No tool calls provided - cancelling run'') (\<lambda>_.
        bindE (call (RunsCancel thread_id (run_id run)) (runs_cancel C thread_id (run_id run))) (\<lambda>_.
        return True))
      else
        bindE (main_for_tool_calls C (mcp_headers mcp) tool_calls []) (\<lambda>tool_approvals.
        bindE (print (''tool_approvals: '' @ str_tool_approvals C tool_approvals)) (\<lambda>_.
        bindE (if tool_approvals \<noteq> [] then
                 call (SubmitToolOutputs thread_id (run_id run) tool_approvals)
                   (submit_tool_outputs C thread_id (run_id run) tool_approvals)
               else return ()) (\<lambda>_.
        return False))))"

text \<open>Lines 109 to 140: one iteration of the \<^verbatim>\<open>while\<close> loop.\<close>

definition main_iteration ::
  "'w agents_client \<Rightarrow> mcp_tool \<Rightarrow> string \<Rightarrow> run \<Rightarrow> ('w, loop_ctl) io"
where
  "main_iteration C mcp thread_id run0 =
     bindE (call (Sleep 1) (sleep C 1)) (\<lambda>_.
     bindE (call (RunsGet thread_id (run_id run0)) (runs_get C thread_id (run_id run0))) (\<lambda>run.
     bindE (if status run = ''requires_action'' \<and> isinstance_SubmitToolApprovalAction (required_action run)
            then main_handle_approvals C mcp thread_id run
            else return False) (\<lambda>broke.
     if broke then return (Break run)
     else bindE (print (''Current run status: '' @ status run)) (\<lambda>_. return (Continue run)))))"

text \<open>
  The \<^verbatim>\<open>while\<close> loop. No bound on the number of iterations exists in the source, so
  the loop takes fuel, one unit per iteration; \<open>None\<close> says that the loop is still
  running when the fuel is spent. The loop test comes first: a loop that has ended needs
  no fuel.
\<close>

fun main_poll_loop ::
  "nat \<Rightarrow> 'w agents_client \<Rightarrow> mcp_tool \<Rightarrow> string \<Rightarrow> run \<Rightarrow> 'w st \<Rightarrow> ((exn + run) \<times> 'w st) option"
where
  "main_poll_loop 0 C mcp thread_id run s =
     (if status run \<in> set active_statuses then None else Some (Inr run, s))"
| "main_poll_loop (Suc fuel) C mcp thread_id run s =
     (if status run \<in> set active_statuses then
        (case main_iteration C mcp thread_id run s of
           (Inl e, s') \<Rightarrow> Some (Inl e, s')
         | (Inr (Break run'), s') \<Rightarrow> Some (Inr run', s')
         | (Inr (Continue run'), s') \<Rightarrow> main_poll_loop fuel C mcp thread_id run' s')
      else Some (Inr run, s))"

subsection \<open>\<^verbatim>\<open>mainchat.py\<close>, lines 127 to 157\<close>

text \<open>Lines 139 to 150: as in \<^verbatim>\<open>main.py\<close>, without the line printed before each
  approval.\<close>

fun chat_for_tool_calls ::
  "'w agents_client \<Rightarrow> (string \<times> string) list \<Rightarrow> tool_call list \<Rightarrow> tool_approval list \<Rightarrow> ('w, tool_approval list) io"
where
  "chat_for_tool_calls C hs [] tool_approvals = return tool_approvals"
| "chat_for_tool_calls C hs (tool_call # rest) tool_approvals =
     (if is_RequiredMcpToolCall tool_call then
        (case ToolApproval_raises C tool_call of
           None \<Rightarrow>
             chat_for_tool_calls C hs rest
               (tool_approvals @ [\<lparr>tool_call_id = tc_id tool_call, approve = True, headers = hs\<rparr>])
         | Some e \<Rightarrow>
             bindE (print (''Error approving tool_call '' @ tc_id tool_call @ '': '' @ e)) (\<lambda>_.
               chat_for_tool_calls C hs rest tool_approvals))
      else chat_for_tool_calls C hs rest tool_approvals)"

definition chat_handle_approvals ::
  "'w agents_client \<Rightarrow> mcp_tool \<Rightarrow> string \<Rightarrow> run \<Rightarrow> ('w, bool) io"
where
  "chat_handle_approvals C mcp thread_id run =
     (let tool_calls = submit_tool_approval_tool_calls (required_action run) in
      if tool_calls = [] then
        bindE (print ''No tool calls provided - cancelling run'') (\<lambda>_.
        bindE (call (RunsCancel thread_id (run_id run)) (runs_cancel C thread_id (run_id run))) (\<lambda>_.
        return True))
      else
        bindE (chat_for_tool_calls C (mcp_headers mcp) tool_calls []) (\<lambda>tool_approvals.
        bindE (if tool_approvals \<noteq> [] then
                 call (SubmitToolOutputs thread_id (run_id run) tool_approvals)
                   (submit_tool_outputs C thread_id (run_id run) tool_approvals)
               else return ()) (\<lambda>_.
        return False)))"

definition chat_iteration ::
  "'w agents_client \<Rightarrow> mcp_tool \<Rightarrow> string \<Rightarrow> run \<Rightarrow> ('w, loop_ctl) io"
where
  "chat_iteration C mcp thread_id run0 =
     bindE (call (Sleep 1) (sleep C 1)) (\<lambda>_.
     bindE (call (RunsGet thread_id (run_id run0)) (runs_get C thread_id (run_id run0))) (\<lambda>run.
     bindE (if status run = ''requires_action'' \<and> isinstance_SubmitToolApprovalAction (required_action run)
            then chat_handle_approvals C mcp thread_id run
            else return False) (\<lambda>broke.
     if broke then return (Break run) else return (Continue run))))"

fun chat_poll_loop ::
  "nat \<Rightarrow> 'w agents_client \<Rightarrow> mcp_tool \<Rightarrow> string \<Rightarrow> run \<Rightarrow> 'w st \<Rightarrow> ((exn + run) \<times> 'w st) option"
where
  "chat_poll_loop 0 C mcp thread_id run s =
     (if status run \<in> set active_statuses then None else Some (Inr run, s))"
| "chat_poll_loop (Suc fuel) C mcp thread_id run s =
     (if status run \<in> set active_statuses then
        (case chat_iteration C mcp thread_id run s of
           (Inl e, s') \<Rightarrow> Some (Inl e, s')
         | (Inr (Break run'), s') \<Rightarrow> Some (Inr run', s')
         | (Inr (Continue run'), s') \<Rightarrow> chat_poll_loop fuel C mcp thread_id run' s')
      else Some (Inr run, s))"

section \<open>The script \<^verbatim>\<open>main.py\<close>\<close>

definition squote :: "string \<Rightarrow> string" where
  "squote x = CHR 0x27 # x @ [CHR 0x27]"

definition newline :: string where
  "newline = [CHR 0x0A]"

text \<open>The \<^verbatim>\<open>instructions\<close> f-string of lines 78 to 81.\<close>

definition main_instructions :: "string \<Rightarrow> string \<Rightarrow> string" where
  "main_instructions mcp_server_url mcp_server_label =
     ''You are a helpful agent that can use MCP tools to assist users. '' @ newline @
     ''        You have access to a Home Assistant MCP server at '' @ mcp_server_url @
     '' with label '' @ squote mcp_server_label @ ''.'' @ newline @
     ''        Use the available MCP tools to answer questions about home automation, sensor data, and device control.'' @ newline @
     ''        When making MCP calls, ensure you use the proper authentication headers that have been configured.''"

text \<open>The content of the one message the script sends (line 97), as UTF-8 bytes.\<close>

definition main_content :: string where
  "main_content =
     ''Qu'' @ [CHR 0xC3, CHR 0xA9] @ '' temperatura hace en el sal'' @ [CHR 0xC3, CHR 0xB3] @ ''n?''"

text \<open>
  Lines 71 to 106: agent, thread, message and run are created; the result is the thread
  identifier, the tool and the run.
\<close>

definition main_setup ::
  "'w agents_client \<Rightarrow> environ \<Rightarrow> mcp_tool \<Rightarrow> ('w, string \<times> mcp_tool \<times> run) io"
where
  "main_setup C env mcp_tool0 =
     (let mcp_server_url = env_value env ''MCP_SERVER_URL'';
          mcp_server_label = env_value env ''MCP_SERVER_LABEL'';
          azure_model_deployment_name = env_value env ''MODEL_DEPLOYMENT_NAME'';
          instructions = main_instructions mcp_server_url mcp_server_label
      in
        bindE (call (CreateAgent azure_model_deployment_name ''HomeAssistantMCPAgent'' instructions mcp_tool0)
                 (create_agent C azure_model_deployment_name ''HomeAssistantMCPAgent'' instructions mcp_tool0)) (\<lambda>agent_id.
        bindE (print (''Created agent, ID: '' @ agent_id)) (\<lambda>_.
        bindE (print (''MCP Server: '' @ server_label mcp_tool0 @ '' at '' @ server_url mcp_tool0)) (\<lambda>_.
        bindE (call ThreadsCreate (threads_create C)) (\<lambda>thread_id.
        bindE (print (''Created thread, ID: '' @ thread_id)) (\<lambda>_.
        bindE (call (MessagesCreate thread_id ''user'' main_content)
                 (messages_create C thread_id ''user'' main_content)) (\<lambda>message_id.
        bindE (print (''Created message, ID: '' @ message_id)) (\<lambda>_.
        let mcp_tool1 = set_approval_mode ''never'' mcp_tool0 in
        bindE (call (RunsCreate thread_id agent_id mcp_tool1)
                 (runs_create C thread_id agent_id mcp_tool1)) (\<lambda>run.
        bindE (print (''Created run, ID: '' @ run_id run)) (\<lambda>_.
        return (thread_id, mcp_tool1, run)))))))))))"

text \<open>\<^verbatim>\<open>str.upper()\<close> on the ASCII letters.\<close>

definition upper_char :: "char \<Rightarrow> char" where
  "upper_char c =
     (let n = (of_char c :: nat) in if 97 \<le> n \<and> n \<le> 122 then char_of (n - 32) else c)"

definition upper :: "string \<Rightarrow> string" where
  "upper x = map upper_char x"

text \<open>The lines printed for one run step (lines 152 to 164).\<close>

definition step_lines :: "run_step \<Rightarrow> string list" where
  "step_lines step =
     [''Step '' @ step_id step @ '' status: '' @ step_status step] @
     (if step_tool_calls step \<noteq> [] then
        [''  MCP Tool calls:''] @
        concat (map (\<lambda>(i, t). [''    Tool Call ID: '' @ i, ''    Type: '' @ t]) (step_tool_calls step))
      else []) @
     [[]]"

text \<open>The lines printed for one message (lines 171 to 174).\<close>

definition message_lines :: "thread_message \<Rightarrow> string list" where
  "message_lines msg =
     (if text_messages msg \<noteq> [] then
        [upper (role msg) @ '': '' @ last (text_messages msg), replicate 50 CHR ''-'']
      else [])"

definition prints :: "string list \<Rightarrow> ('w, unit) io" where
  "prints ls s = (Inr (), (fst s, snd s @ map Print ls))"

text \<open>Lines 143 to 174: what the script reports once the loop has ended.\<close>

definition main_report :: "'w agents_client \<Rightarrow> string \<Rightarrow> run \<Rightarrow> ('w, unit) io" where
  "main_report C thread_id run =
     bindE (print (''Run completed with status: '' @ status run)) (\<lambda>_.
     bindE (if status run = ''failed'' then print (''Run failed: '' @ last_error run) else return ()) (\<lambda>_.
     bindE (call (RunStepsList thread_id (run_id run)) (run_steps_list C thread_id (run_id run))) (\<lambda>run_steps.
     bindE (prints (concat (map step_lines run_steps))) (\<lambda>_.
     bindE (call (MessagesList thread_id) (messages_list C thread_id)) (\<lambda>messages.
     bindE (print (newline @ ''Conversation:'')) (\<lambda>_.
     bindE (print (replicate 50 CHR ''-'')) (\<lambda>_.
     prints (concat (map message_lines messages)))))))))"

text \<open>Lines 70 to 174: the body of \<^verbatim>\<open>with project_client\<close>.\<close>

definition main_with_body ::
  "nat \<Rightarrow> 'w agents_client \<Rightarrow> environ \<Rightarrow> mcp_tool \<Rightarrow> 'w st \<Rightarrow> ((exn + unit) \<times> 'w st) option"
where
  "main_with_body fuel C env mcp_tool0 s =
     (case main_setup C env mcp_tool0 s of
        (Inl e, s1) \<Rightarrow> Some (Inl e, s1)
      | (Inr (thread_id, mcp_tool1, run), s1) \<Rightarrow>
          (case main_poll_loop fuel C mcp_tool1 thread_id run s1 of
             None \<Rightarrow> None
           | Some (Inl e, s2) \<Rightarrow> Some (Inl e, s2)
           | Some (Inr run', s2) \<Rightarrow> Some (main_report C thread_id run' s2)))"

text \<open>
  The whole script. A missing required variable raises \<^verbatim>\<open>ValueError\<close> at line 49,
  before the client exists. Leaving the \<^verbatim>\<open>with\<close> block, by its end or by an
  exception, closes the client.
\<close>

definition main ::
  "nat \<Rightarrow> 'w agents_client \<Rightarrow> environ \<Rightarrow> 'w st \<Rightarrow> ((exn + unit) \<times> 'w st) option"
where
  "main fuel C env s =
     (if missing_vars env \<noteq> [] then Some (Inl (Exception (missing_message env)), s)
      else
        (case configure_headers (env ''MCP_SERVER_TOKEN'')
                (McpTool (env_value env ''MCP_SERVER_LABEL'') (env_value env ''MCP_SERVER_URL'')) s of
           (mcp_tool0, s0) \<Rightarrow>
             (case main_with_body fuel C env mcp_tool0 s0 of
                None \<Rightarrow> None
              | Some (r, s1) \<Rightarrow> Some (r, (fst s1, snd s1 @ [ClientClose])))))"

section \<open>The chat handler of \<^verbatim>\<open>mainchat.py\<close>\<close>

text \<open>
  The fields of \<^verbatim>\<open>AzureAIAgentHandler\<close>, each \<^verbatim>\<open>None\<close> until
  \<^verbatim>\<open>initialize\<close> sets it: the two clients (by the endpoint they were built for), the
  identifiers of agent and thread, and the tool. One handler serves one session at a
  time here: no other task changes it while \<^verbatim>\<open>send_message\<close> is suspended.
\<close>

record handler =
  project_client :: "string option"
  agents_client :: "string option"
  agent :: "string option"
  thread :: "string option"
  mcp_tool :: "mcp_tool option"

definition handler_init :: handler where
  "handler_init = \<lparr>project_client = None, agents_client = None, agent = None, thread = None, mcp_tool = None\<rparr>"

definition chat_instructions :: "string \<Rightarrow> string \<Rightarrow> string" where
  "chat_instructions mcp_server_url mcp_server_label =
     ''You are a helpful assistant that can use MCP tools to help users. '' @ newline @
     ''                You have access to a Home Assistant MCP server at '' @ mcp_server_url @
     '' with label '' @ squote mcp_server_label @ ''.'' @ newline @
     ''                Use the available MCP tools to answer questions about home automation, sensor data, and device control.'' @ newline @
     ''                When making MCP calls, ensure you use the proper authentication headers that have been configured.'' @ newline @
     ''                Always respond in a clear and helpful manner.''"

text \<open>
  The \<^verbatim>\<open>except Exception\<close> clause of \<^verbatim>\<open>initialize\<close> (lines 105 to 107): the error
  is printed and the result is \<^verbatim>\<open>False\<close>; an exception outside \<^verbatim>\<open>Exception\<close>
  passes. The handler keeps the fields set before the exception.
\<close>

fun initialize_except :: "exn \<Rightarrow> handler \<Rightarrow> 'w st \<Rightarrow> ((exn + bool) \<times> handler) \<times> 'w st" where
  "initialize_except (Exception m) h s =
     ((Inr False, h), (fst s, snd s @ [Print (''Error initializing agent: '' @ m)]))"
| "initialize_except (BaseExceptionOnly m) h s = ((Inl (BaseExceptionOnly m), h), s)"

text \<open>\<^verbatim>\<open>initialize\<close>, lines 48 to 107.\<close>

definition initialize ::
  "'w agents_client \<Rightarrow> environ \<Rightarrow> handler \<Rightarrow> 'w st \<Rightarrow> ((exn + bool) \<times> handler) \<times> 'w st"
where
  "initialize C env h s =
     (if missing_vars env \<noteq> [] then initialize_except (Exception (missing_message env)) h s
      else
        let mcp_server_url = env_value env ''MCP_SERVER_URL'';
            mcp_server_label = env_value env ''MCP_SERVER_LABEL'';
            azure_project_endpoint = env_value env ''PROJECT_ENDPOINT'';
            azure_model_deployment_name = env_value env ''MODEL_DEPLOYMENT_NAME'';
            h1 = h\<lparr>project_client := Some azure_project_endpoint\<rparr>
        in
        (case configure_headers (env ''MCP_SERVER_TOKEN'') (McpTool mcp_server_label mcp_server_url) s of
           (tool, s1) \<Rightarrow>
             let h2 = h1\<lparr>mcp_tool := Some tool, agents_client := Some azure_project_endpoint\<rparr>;
                 instructions = chat_instructions mcp_server_url mcp_server_label
             in
             (case call (CreateAgent azure_model_deployment_name ''HomeAssistantMCPChatAgent'' instructions tool)
                     (create_agent C azure_model_deployment_name ''HomeAssistantMCPChatAgent'' instructions tool) s1 of
                (Inl e, s2) \<Rightarrow> initialize_except e h2 s2
              | (Inr agent_id, s2) \<Rightarrow>
                  let h3 = h2\<lparr>agent := Some agent_id\<rparr> in
                  (case call ThreadsCreate (threads_create C) s2 of
                     (Inl e, s3) \<Rightarrow> initialize_except e h3 s3
                   | (Inr thread_id, s3) \<Rightarrow>
                       ((Inr True,
                         h3\<lparr>thread := Some thread_id,
                            mcp_tool := Some (set_approval_mode ''never'' tool)\<rparr>), s3)))))"

text \<open>Reading an attribute of \<^verbatim>\<open>None\<close> raises \<^verbatim>\<open>AttributeError\<close>.\<close>

definition none_attribute :: "string \<Rightarrow> exn" where
  "none_attribute a =
     Exception (squote ''NoneType'' @ '' object has no attribute '' @ squote a)"

definition attr :: "'a option \<Rightarrow> string \<Rightarrow> ('w, 'a) io" where
  "attr v a = (case v of None \<Rightarrow> raise (none_attribute a) | Some x \<Rightarrow> return x)"

text \<open>Lines 164 to 169: the first assistant message that has text gives the answer.\<close>

fun first_assistant_text :: "thread_message list \<Rightarrow> string" where
  "first_assistant_text [] = ''No response received from agent.''"
| "first_assistant_text (msg # rest) =
     (if role msg = ''assistant'' \<and> text_messages msg \<noteq> [] then last (text_messages msg)
      else first_assistant_text rest)"

text \<open>Lines 112 to 124: the message and the run are created.\<close>

definition send_message_create ::
  "'w agents_client \<Rightarrow> handler \<Rightarrow> string \<Rightarrow> ('w, string \<times> mcp_tool \<times> run) io"
where
  "send_message_create C h content =
     bindE (attr (agents_client h) ''messages'') (\<lambda>_.
     bindE (attr (thread h) ''id'') (\<lambda>thread_id.
     bindE (call (MessagesCreate thread_id ''user'' content)
              (messages_create C thread_id ''user'' content)) (\<lambda>message_id.
     bindE (attr (agent h) ''id'') (\<lambda>agent_id.
     bindE (attr (mcp_tool h) ''resources'') (\<lambda>tool.
     bindE (call (RunsCreate thread_id agent_id tool) (runs_create C thread_id agent_id tool)) (\<lambda>run.
     return (thread_id, tool, run)))))))"

text \<open>Lines 159 to 169: what is returned once the loop has ended.\<close>

definition send_message_result :: "'w agents_client \<Rightarrow> string \<Rightarrow> run \<Rightarrow> ('w, string) io" where
  "send_message_result C thread_id run =
     (if status run = ''failed'' then return (''Error: Run failed - '' @ last_error run)
      else
        bindE (call (MessagesList thread_id) (messages_list C thread_id)) (\<lambda>messages.
        return (first_assistant_text messages)))"

text \<open>Lines 112 to 169: the body of the \<^verbatim>\<open>try\<close> of \<^verbatim>\<open>send_message\<close>.\<close>

definition send_message_try ::
  "nat \<Rightarrow> 'w agents_client \<Rightarrow> handler \<Rightarrow> string \<Rightarrow> 'w st \<Rightarrow> ((exn + string) \<times> 'w st) option"
where
  "send_message_try fuel C h content s =
     (case send_message_create C h content s of
        (Inl e, s1) \<Rightarrow> Some (Inl e, s1)
      | (Inr (thread_id, tool, run), s1) \<Rightarrow>
          (case chat_poll_loop fuel C tool thread_id run s1 of
             None \<Rightarrow> None
           | Some (Inl e, s2) \<Rightarrow> Some (Inl e, s2)
           | Some (Inr run', s2) \<Rightarrow> Some (send_message_result C thread_id run' s2)))"

text \<open>
  \<^verbatim>\<open>send_message\<close> with its \<^verbatim>\<open>except Exception\<close> clause (lines 171 and 172): an
  \<^verbatim>\<open>Exception\<close> becomes the returned text; any other exception passes to the caller.
\<close>

fun send_message_except :: "(exn + string) \<Rightarrow> (exn + string)" where
  "send_message_except (Inl (Exception m)) = Inr (''Error processing message: '' @ m)"
| "send_message_except (Inl (BaseExceptionOnly m)) = Inl (BaseExceptionOnly m)"
| "send_message_except (Inr text) = Inr text"

definition send_message ::
  "nat \<Rightarrow> 'w agents_client \<Rightarrow> handler \<Rightarrow> string \<Rightarrow> 'w st \<Rightarrow> ((exn + string) \<times> 'w st) option"
where
  "send_message fuel C h content s =
     (case send_message_try fuel C h content s of
        None \<Rightarrow> None
      | Some (r, s') \<Rightarrow> Some (send_message_except r, s'))"

section \<open>Vocabulary of the properties\<close>

text \<open>
  The tool calls for which an iteration builds an approval record: those of the MCP class
  whose record is built without an exception; and the record built for one of them.
\<close>

definition approvable :: "'w agents_client \<Rightarrow> tool_call \<Rightarrow> bool" where
  "approvable C tc = (is_RequiredMcpToolCall tc \<and> ToolApproval_raises C tc = None)"

definition approval :: "(string \<times> string) list \<Rightarrow> tool_call \<Rightarrow> tool_approval" where
  "approval hs tc = \<lparr>tool_call_id = tc_id tc, approve = True, headers = hs\<rparr>"

definition approvals_for ::
  "'w agents_client \<Rightarrow> (string \<times> string) list \<Rightarrow> tool_call list \<Rightarrow> tool_approval list" where
  "approvals_for C hs tcs = map (approval hs) (filter (approvable C) tcs)"

text \<open>The console lines of the two \<^verbatim>\<open>for tool_call in tool_calls\<close> loops.\<close>

fun main_for_lines :: "'w agents_client \<Rightarrow> tool_call list \<Rightarrow> string list" where
  "main_for_lines C [] = []"
| "main_for_lines C (tc # rest) =
     (if is_RequiredMcpToolCall tc then
        (''Approving tool call: '' @ str_tool_call C tc) #
        (case ToolApproval_raises C tc of
           None \<Rightarrow> []
         | Some e \<Rightarrow> [''Error approving tool_call '' @ tc_id tc @ '': '' @ e])
      else []) @ main_for_lines C rest"

fun chat_for_lines :: "'w agents_client \<Rightarrow> tool_call list \<Rightarrow> string list" where
  "chat_for_lines C [] = []"
| "chat_for_lines C (tc # rest) =
     (if is_RequiredMcpToolCall tc then
        (case ToolApproval_raises C tc of
           None \<Rightarrow> []
         | Some e \<Rightarrow> [''Error approving tool_call '' @ tc_id tc @ '': '' @ e])
      else []) @ chat_for_lines C rest"

text \<open>The tools with which the runs of a trace were created, and its batch submissions.\<close>

fun runs_created :: "event list \<Rightarrow> mcp_tool list" where
  "runs_created [] = []"
| "runs_created (RunsCreate t a m # evs) = m # runs_created evs"
| "runs_created (ev # evs) = runs_created evs"

fun submissions :: "event list \<Rightarrow> tool_approval list list" where
  "submissions [] = []"
| "submissions (SubmitToolOutputs t r tas # evs) = tas # submissions evs"
| "submissions (ev # evs) = submissions evs"

text \<open>The events by which a run is started, polled or resumed.\<close>

fun drives_run :: "event \<Rightarrow> bool" where
  "drives_run (RunsCreate t a m) = True"
| "drives_run (RunsGet t r) = True"
| "drives_run (SubmitToolOutputs t r tas) = True"
| "drives_run ev = False"

section \<open>A scripted service\<close>

text \<open>
  A concrete service on which the scripts can be run: the world counts the fetches of
  the run status, and the \<open>n\<close>-th fetch answers with the \<open>n\<close>-th run of a script
  (a completed run once the script is used up). Building the approval for the tool call
  named \<open>bad\<close> raises.
\<close>

definition run_with :: "string \<Rightarrow> required_action \<Rightarrow> run" where
  "run_with st a = \<lparr>run_id = ''run_1'', status = st, required_action = a, last_error = ''None''\<rparr>"

definition run_failed :: run where
  "run_failed = (run_with ''failed'' NoAction)\<lparr>last_error := ''rate_limit_exceeded''\<rparr>"

definition scripted_client :: "run list \<Rightarrow> nat agents_client" where
  "scripted_client script =
     \<lparr>sleep = (\<lambda>n w. (Inr (), w)),
      create_agent = (\<lambda>m n i t w. (Inr ''agent_1'', w)),
      threads_create = (\<lambda>w. (Inr ''thread_1'', w)),
      messages_create = (\<lambda>t r c w. (Inr ''msg_1'', w)),
      runs_create = (\<lambda>t a m w. (Inr (run_with ''queued'' NoAction), w)),
      runs_get = (\<lambda>t r w. (Inr (if w < length script then script ! w else run_with ''completed'' NoAction), Suc w)),
      runs_cancel = (\<lambda>t r w. (Inr (), w)),
      submit_tool_outputs = (\<lambda>t r tas w. (Inr (), w)),
      run_steps_list = (\<lambda>t r w. (Inr [], w)),
      messages_list = (\<lambda>t w.
        (Inr [\<lparr>role = ''user'', text_messages = [''hola'']\<rparr>,
              \<lparr>role = ''assistant'', text_messages = []\<rparr>,
              \<lparr>role = ''assistant'', text_messages = [''uno'', ''21 grados'']\<rparr>], w)),
      ToolApproval_raises = (\<lambda>tc. if tc_id tc = ''bad'' then Some ''boom'' else None),
      str_tool_call = tc_id,
      str_tool_approvals = (\<lambda>tas. ''['' @ join '', '' (map tool_call_id tas) @ '']'')\<rparr>"

text \<open>The same service, with every sleep interrupted by the cancellation of the task.\<close>

definition cancelled_client :: "run list \<Rightarrow> nat agents_client" where
  "cancelled_client script =
     (scripted_client script)\<lparr>sleep := (\<lambda>n w. (Inl (BaseExceptionOnly ''CancelledError''), w))\<rparr>"

definition example_env :: "string option \<Rightarrow> environ" where
  "example_env token =
     (map_of [(''PROJECT_ENDPOINT'', ''https://project''), (''MODEL_DEPLOYMENT_NAME'', ''gpt''),
              (''MCP_SERVER_URL'', ''https://mcp''), (''MCP_SERVER_LABEL'', ''home'')])
       (''MCP_SERVER_TOKEN'' := token)"

text \<open>An environment without \<^verbatim>\<open>MCP_SERVER_URL\<close> and with an empty
  \<^verbatim>\<open>PROJECT_ENDPOINT\<close>.\<close>

definition incomplete_env :: environ where
  "incomplete_env =
     map_of [(''PROJECT_ENDPOINT'', []), (''MODEL_DEPLOYMENT_NAME'', ''gpt''),
             (''MCP_SERVER_LABEL'', ''home'')]"

definition example_tool :: "(string \<times> string) list \<Rightarrow> mcp_tool" where
  "example_tool hs =
     \<lparr>server_label = ''home'', server_url = ''https://mcp'', mcp_headers = hs,
      require_approval = ''never''\<rparr>"

definition example_handler :: "(string \<times> string) list \<Rightarrow> handler" where
  "example_handler hs =
     \<lparr>project_client = Some ''https://project'', agents_client = Some ''https://project'',
      agent = Some ''agent_1'', thread = Some ''thread_1'', mcp_tool = Some (example_tool hs)\<rparr>"

section \<open>Basic facts\<close>

lemma bindE_return: "bindE (return a) f s = f a s"
  by (simp add: bindE_def return_def)

lemma bindE_print: "bindE (print l) f s = f () (fst s, snd s @ [Print l])"
  by (simp add: bindE_def print_def)

lemma bindE_prints: "bindE (prints ls) f s = f () (fst s, snd s @ map Print ls)"
  by (simp add: bindE_def prints_def)

lemma bindE_raise: "bindE (raise e) f s = (Inl e, s)"
  by (simp add: bindE_def raise_def)

lemma bindE_call:
  "bindE (call ev g) f s =
     (case g (fst s) of
        (Inl e, w') \<Rightarrow> (Inl e, (w', snd s @ [ev]))
      | (Inr a, w') \<Rightarrow> f a (w', snd s @ [ev]))"
  by (simp add: bindE_def call_def split: prod.splits sum.splits)

lemmas io_simps = bindE_return bindE_print bindE_prints bindE_raise bindE_call

lemma join_contains: "x \<in> set xs \<Longrightarrow> \<exists>pre post. join sep xs = pre @ x @ post"
proof (induction sep xs rule: join.induct)
  case (1 sep)
  then show ?case by simp
next
  case (2 sep y)
  then have "join sep [y] = [] @ x @ []" by simp
  then show ?case by blast
next
  case (3 sep y z zs)
  show ?case
  proof (cases "x = y")
    case True
    then have "join sep (y # z # zs) = [] @ x @ (sep @ join sep (z # zs))" by simp
    then show ?thesis by blast
  next
    case False
    with 3 obtain pre post where "join sep (z # zs) = pre @ x @ post" by auto
    then have "join sep (y # z # zs) = (y @ sep @ pre) @ x @ post" by simp
    then show ?thesis by blast
  qed
qed

lemma missing_vars_iff:
  "var \<in> set (missing_vars env) \<longleftrightarrow>
     var \<in> set required_vars \<and> (env var = None \<or> env var = Some [])"
  by (auto simp: missing_vars_def truthy_def split: option.splits)

section \<open>Startup\<close>

text \<open>
  C4, as stated, fails for the chat variant: the \<^verbatim>\<open>ValueError\<close> is raised inside
  the \<^verbatim>\<open>try\<close> of \<^verbatim>\<open>initialize\<close>, whose own \<^verbatim>\<open>except Exception\<close> clause
  catches it. With no variable set at all, \<^verbatim>\<open>initialize\<close> prints the error and
  returns \<^verbatim>\<open>False\<close>; no exception leaves it.
\<close>

theorem chat_initialize_catches_missing_variables:
  "initialize (scripted_client []) Map.empty handler_init (0, []) =
     ((Inr False, handler_init),
      (0, [Print ''Error initializing agent: Missing required environment variables: PROJECT_ENDPOINT, MODEL_DEPLOYMENT_NAME, MCP_SERVER_URL, MCP_SERVER_LABEL'']))
   \<and> \<not> (\<exists>e. fst (fst (initialize (scripted_client []) Map.empty handler_init (0, []))) = Inl e)"
  by (simp add: initialize_def missing_message_def missing_vars_def required_vars_def truthy_def)

text \<open>
  C4, amended. When a required variable is absent or empty, startup stops before any
  call of the service, with an error whose text is the fixed prefix followed by the
  absent or empty required variables, joined by commas (so each of them occurs in it).
  \<^verbatim>\<open>main.py\<close> raises it as a \<^verbatim>\<open>ValueError\<close> that ends the script, before anything
  has been printed or called (the state is untouched). \<^verbatim>\<open>initialize\<close> of the chat
  handler raises the same error, which its own \<^verbatim>\<open>except\<close> clause catches and prints;
  it returns \<^verbatim>\<open>False\<close> with the handler untouched and the service never called, and
  no exception leaves it.
\<close>

theorem missing_required_variable_stops_startup:
  assumes "var \<in> set required_vars" and "env var = None \<or> env var = Some []"
  shows "main fuel C env s = Some (Inl (Exception (missing_message env)), s)
       \<and> initialize C env h s =
           ((Inr False, h), (fst s, snd s @ [Print (''Error initializing agent: '' @ missing_message env)]))
       \<and> (\<forall>e. fst (fst (initialize C env h s)) \<noteq> Inl e)
       \<and> missing_message env =
           ''Missing required environment variables: '' @
           join '', '' (filter (\<lambda>v. env v = None \<or> env v = Some []) required_vars)
       \<and> (\<forall>v \<in> set required_vars. env v = None \<or> env v = Some [] \<longrightarrow>
            (\<exists>pre post. missing_message env = pre @ v @ post))"
proof -
  from assms have m: "missing_vars env \<noteq> []"
    using missing_vars_iff [of var env] by auto
  have f: "missing_vars env = filter (\<lambda>v. env v = None \<or> env v = Some []) required_vars"
    unfolding missing_vars_def
    by (rule filter_cong) (auto simp: truthy_def split: option.splits)
  have l: "\<exists>pre post. missing_message env = pre @ v @ post"
    if "v \<in> set required_vars" "env v = None \<or> env v = Some []" for v
  proof -
    from that have "v \<in> set (missing_vars env)" by (simp add: missing_vars_iff)
    then obtain pre post where "join '', '' (missing_vars env) = pre @ v @ post"
      using join_contains by blast
    then have "missing_message env = (''Missing required environment variables: '' @ pre) @ v @ post"
      by (simp add: missing_message_def)
    then show ?thesis by blast
  qed
  from m have "main fuel C env s = Some (Inl (Exception (missing_message env)), s)"
    by (simp add: main_def)
  moreover from m have i: "initialize C env h s =
      ((Inr False, h), (fst s, snd s @ [Print (''Error initializing agent: '' @ missing_message env)]))"
    by (simp add: initialize_def)
  moreover have "\<forall>e. fst (fst (initialize C env h s)) \<noteq> Inl e"
    by (simp add: i)
  moreover have "missing_message env =
      ''Missing required environment variables: '' @
      join '', '' (filter (\<lambda>v. env v = None \<or> env v = Some []) required_vars)"
    using f by (simp add: missing_message_def)
  ultimately show ?thesis using l by blast
qed

theorem missing_required_variable_stops_startup_witness:
  "''MCP_SERVER_URL'' \<in> set required_vars \<and> incomplete_env ''MCP_SERVER_URL'' = None
   \<and> main 3 (scripted_client []) incomplete_env (0, []) =
       Some (Inl (Exception ''Missing required environment variables: PROJECT_ENDPOINT, MCP_SERVER_URL''), (0, []))
   \<and> initialize (scripted_client []) incomplete_env handler_init (0, []) =
       ((Inr False, handler_init),
        (0, [Print ''Error initializing agent: Missing required environment variables: PROJECT_ENDPOINT, MCP_SERVER_URL'']))"
proof -
  have a: "''MCP_SERVER_URL'' \<in> set required_vars"
    by (simp add: required_vars_def)
  have b: "incomplete_env ''MCP_SERVER_URL'' = None \<or> incomplete_env ''MCP_SERVER_URL'' = Some []"
    by (simp add: incomplete_env_def)
  have c: "missing_message incomplete_env =
      ''Missing required environment variables: PROJECT_ENDPOINT, MCP_SERVER_URL''"
    by (simp add: missing_message_def missing_vars_def required_vars_def truthy_def incomplete_env_def)
  show ?thesis
    using missing_required_variable_stops_startup
      [where var = "''MCP_SERVER_URL''" and env = incomplete_env and fuel = 3
         and C = "scripted_client []" and s = "(0, [])" and h = handler_init, OF a b] a c
    by (simp add: incomplete_env_def)
qed

section \<open>The approval loop: one iteration\<close>

lemma main_for_tool_calls_eq:
  "main_for_tool_calls C hs tcs acc s =
     (Inr (acc @ approvals_for C hs tcs), (fst s, snd s @ map Print (main_for_lines C tcs)))"
  by (induction tcs arbitrary: acc s)
     (simp_all add: io_simps return_def approvals_for_def approvable_def approval_def
        split: option.splits)

lemma chat_for_tool_calls_eq:
  "chat_for_tool_calls C hs tcs acc s =
     (Inr (acc @ approvals_for C hs tcs), (fst s, snd s @ map Print (chat_for_lines C tcs)))"
  by (induction tcs arbitrary: acc s)
     (simp_all add: io_simps return_def approvals_for_def approvable_def approval_def
        split: option.splits)

lemma main_handle_approvals_empty:
  assumes "required_action run = SubmitToolApprovalAction []"
  shows "main_handle_approvals C mcp thread_id run s =
     (case runs_cancel C thread_id (run_id run) (fst s) of
        (r, w') \<Rightarrow>
          (map_sum id (\<lambda>_. True) r,
           (w', snd s @ [Print ''No tool calls provided - cancelling run'',
                         RunsCancel thread_id (run_id run)])))"
  using assms
  by (simp add: main_handle_approvals_def io_simps return_def split: prod.splits sum.splits)

lemma chat_handle_approvals_empty:
  assumes "required_action run = SubmitToolApprovalAction []"
  shows "chat_handle_approvals C mcp thread_id run s =
     (case runs_cancel C thread_id (run_id run) (fst s) of
        (r, w') \<Rightarrow>
          (map_sum id (\<lambda>_. True) r,
           (w', snd s @ [Print ''No tool calls provided - cancelling run'',
                         RunsCancel thread_id (run_id run)])))"
  using assms
  by (simp add: chat_handle_approvals_def io_simps return_def split: prod.splits sum.splits)

lemma main_handle_approvals_eq:
  assumes "required_action run = SubmitToolApprovalAction tcs" and "tcs \<noteq> []"
  shows "main_handle_approvals C mcp thread_id run s =
     (let tas = approvals_for C (mcp_headers mcp) tcs;
          tr = snd s @ map Print (main_for_lines C tcs) @
                 [Print (''tool_approvals: '' @ str_tool_approvals C tas)]
      in if tas = [] then (Inr False, (fst s, tr))
         else (case submit_tool_outputs C thread_id (run_id run) tas (fst s) of
                 (r, w') \<Rightarrow>
                   (map_sum id (\<lambda>_. False) r,
                    (w', tr @ [SubmitToolOutputs thread_id (run_id run) tas]))))"
  using assms
  by (simp add: main_handle_approvals_def main_for_tool_calls_eq bindE_def print_def call_def return_def Let_def
        split: prod.splits sum.splits)

lemma chat_handle_approvals_eq:
  assumes "required_action run = SubmitToolApprovalAction tcs" and "tcs \<noteq> []"
  shows "chat_handle_approvals C mcp thread_id run s =
     (let tas = approvals_for C (mcp_headers mcp) tcs;
          tr = snd s @ map Print (chat_for_lines C tcs)
      in if tas = [] then (Inr False, (fst s, tr))
         else (case submit_tool_outputs C thread_id (run_id run) tas (fst s) of
                 (r, w') \<Rightarrow>
                   (map_sum id (\<lambda>_. False) r,
                    (w', tr @ [SubmitToolOutputs thread_id (run_id run) tas]))))"
  using assms
  by (simp add: chat_handle_approvals_def chat_for_tool_calls_eq bindE_def print_def call_def return_def Let_def
        split: prod.splits sum.splits)
lemma main_iteration_eq:
  assumes "sleep C 1 (fst s) = (Inr (), w1)"
    and "runs_get C thread_id (run_id run0) w1 = (Inr run, w2)"
  shows "main_iteration C mcp thread_id run0 s =
     (if status run = ''requires_action'' \<and> isinstance_SubmitToolApprovalAction (required_action run)
      then (case main_handle_approvals C mcp thread_id run
                   (w2, snd s @ [Sleep 1, RunsGet thread_id (run_id run0)]) of
              (Inl e, s3) \<Rightarrow> (Inl e, s3)
            | (Inr broke, s3) \<Rightarrow>
                if broke then (Inr (Break run), s3)
                else (Inr (Continue run),
                      (fst s3, snd s3 @ [Print (''Current run status: '' @ status run)])))
      else (Inr (Continue run),
            (w2, snd s @ [Sleep 1, RunsGet thread_id (run_id run0),
                          Print (''Current run status: '' @ status run)])))"
  using assms
  by (simp add: main_iteration_def bindE_def call_def print_def return_def
        split: prod.splits sum.splits)

lemma chat_iteration_eq:
  assumes "sleep C 1 (fst s) = (Inr (), w1)"
    and "runs_get C thread_id (run_id run0) w1 = (Inr run, w2)"
  shows "chat_iteration C mcp thread_id run0 s =
     (if status run = ''requires_action'' \<and> isinstance_SubmitToolApprovalAction (required_action run)
      then (case chat_handle_approvals C mcp thread_id run
                   (w2, snd s @ [Sleep 1, RunsGet thread_id (run_id run0)]) of
              (Inl e, s3) \<Rightarrow> (Inl e, s3)
            | (Inr broke, s3) \<Rightarrow>
                if broke then (Inr (Break run), s3) else (Inr (Continue run), s3))
      else (Inr (Continue run), (w2, snd s @ [Sleep 1, RunsGet thread_id (run_id run0)])))"
  using assms
  by (simp add: chat_iteration_def bindE_def call_def return_def
        split: prod.splits sum.splits)

lemma isinstance_SubmitToolApprovalAction_iff:
  "isinstance_SubmitToolApprovalAction a \<longleftrightarrow> (\<exists>tcs. a = SubmitToolApprovalAction tcs)"
  by (cases a) simp_all

lemma map_sum_False_neq_True: "map_sum f (\<lambda>_. False) x \<noteq> Inr True"
  by (cases x) simp_all

lemma main_handle_approvals_broke:
  assumes "main_handle_approvals C mcp thread_id run s = (Inr True, s')"
    and "isinstance_SubmitToolApprovalAction (required_action run)"
  shows "required_action run = SubmitToolApprovalAction []
       \<and> snd s' = snd s @ [Print ''No tool calls provided - cancelling run'',
                            RunsCancel thread_id (run_id run)]"
proof -
  from assms(2) obtain tcs where a: "required_action run = SubmitToolApprovalAction tcs"
    by (auto simp: isinstance_SubmitToolApprovalAction_iff)
  show ?thesis
  proof (cases "tcs = []")
    case True
    with a assms(1) show ?thesis
      by (auto simp: main_handle_approvals_empty split: prod.splits sum.splits)
  next
    case False
    with a assms(1) have False
      by (auto simp: main_handle_approvals_eq Let_def map_sum_False_neq_True split: prod.splits if_splits)
    then show ?thesis ..
  qed
qed

lemma chat_handle_approvals_broke:
  assumes "chat_handle_approvals C mcp thread_id run s = (Inr True, s')"
    and "isinstance_SubmitToolApprovalAction (required_action run)"
  shows "required_action run = SubmitToolApprovalAction []
       \<and> snd s' = snd s @ [Print ''No tool calls provided - cancelling run'',
                            RunsCancel thread_id (run_id run)]"
proof -
  from assms(2) obtain tcs where a: "required_action run = SubmitToolApprovalAction tcs"
    by (auto simp: isinstance_SubmitToolApprovalAction_iff)
  show ?thesis
  proof (cases "tcs = []")
    case True
    with a assms(1) show ?thesis
      by (auto simp: chat_handle_approvals_empty split: prod.splits sum.splits)
  next
    case False
    with a assms(1) have False
      by (auto simp: chat_handle_approvals_eq Let_def map_sum_False_neq_True split: prod.splits if_splits)
    then show ?thesis ..
  qed
qed

lemma main_iteration_Break:
  assumes "main_iteration C mcp thread_id run0 s = (Inr (Break run), s')"
  shows "status run = ''requires_action'' \<and> required_action run = SubmitToolApprovalAction []
       \<and> (\<exists>evs. snd s' = evs @ [RunsCancel thread_id (run_id run)])"
proof -
  obtain r1 w1 where s1: "sleep C 1 (fst s) = (r1, w1)" by (cases "sleep C 1 (fst s)")
  obtain r2 w2 where s2: "runs_get C thread_id (run_id run0) w1 = (r2, w2)"
    by (cases "runs_get C thread_id (run_id run0) w1")
  from assms s1 obtain u where r1: "r1 = Inr u"
    by (cases r1) (auto simp: main_iteration_def bindE_def call_def)
  from assms s1 s2 r1 obtain run' where r2: "r2 = Inr run'"
    by (cases r2) (auto simp: main_iteration_def bindE_def call_def)
  note eq = main_iteration_eq [where mcp = mcp, OF s1 [unfolded r1 unit_eq [of u]] s2 [unfolded r2]]
  let ?s2 = "(w2, snd s @ [Sleep 1, RunsGet thread_id (run_id run0)])"
  from assms eq have c: "status run' = ''requires_action''"
     "isinstance_SubmitToolApprovalAction (required_action run')"
    by (auto split: if_splits)
  with assms eq have "main_handle_approvals C mcp thread_id run' ?s2 = (Inr True, s')" "run' = run"
    by (auto split: prod.splits sum.splits if_splits)
  with c main_handle_approvals_broke [of C mcp thread_id run ?s2 s'] show ?thesis
    by auto
qed

lemma chat_iteration_Break:
  assumes "chat_iteration C mcp thread_id run0 s = (Inr (Break run), s')"
  shows "status run = ''requires_action'' \<and> required_action run = SubmitToolApprovalAction []
       \<and> (\<exists>evs. snd s' = evs @ [RunsCancel thread_id (run_id run)])"
proof -
  obtain r1 w1 where s1: "sleep C 1 (fst s) = (r1, w1)" by (cases "sleep C 1 (fst s)")
  obtain r2 w2 where s2: "runs_get C thread_id (run_id run0) w1 = (r2, w2)"
    by (cases "runs_get C thread_id (run_id run0) w1")
  from assms s1 obtain u where r1: "r1 = Inr u"
    by (cases r1) (auto simp: chat_iteration_def bindE_def call_def)
  from assms s1 s2 r1 obtain run' where r2: "r2 = Inr run'"
    by (cases r2) (auto simp: chat_iteration_def bindE_def call_def)
  note eq = chat_iteration_eq [where mcp = mcp, OF s1 [unfolded r1 unit_eq [of u]] s2 [unfolded r2]]
  let ?s2 = "(w2, snd s @ [Sleep 1, RunsGet thread_id (run_id run0)])"
  from assms eq have c: "status run' = ''requires_action''"
     "isinstance_SubmitToolApprovalAction (required_action run')"
    by (auto split: if_splits)
  with assms eq have "chat_handle_approvals C mcp thread_id run' ?s2 = (Inr True, s')" "run' = run"
    by (auto split: prod.splits sum.splits if_splits)
  with c chat_handle_approvals_broke [of C mcp thread_id run ?s2 s'] show ?thesis
    by auto
qed

section \<open>The approval loop: when it ends\<close>

lemma main_poll_loop_ended:
  "status run \<notin> set active_statuses \<Longrightarrow> main_poll_loop fuel C mcp thread_id run s = Some (Inr run, s)"
  by (cases fuel) simp_all

lemma chat_poll_loop_ended:
  "status run \<notin> set active_statuses \<Longrightarrow> chat_poll_loop fuel C mcp thread_id run s = Some (Inr run, s)"
  by (cases fuel) simp_all

lemma main_poll_loop_exit:
  "main_poll_loop fuel C mcp thread_id run0 s = Some (Inr run, s') \<Longrightarrow>
     status run \<notin> set active_statuses \<or>
     (status run = ''requires_action'' \<and> required_action run = SubmitToolApprovalAction []
      \<and> (\<exists>evs. snd s' = evs @ [RunsCancel thread_id (run_id run)]))"
proof (induction fuel arbitrary: run0 s)
  case 0
  then show ?case by (auto split: if_splits)
next
  case (Suc fuel)
  show ?case
  proof (cases "status run0 \<in> set active_statuses")
    case False
    with Suc.prems show ?thesis by auto
  next
    case True
    obtain r s1 where it: "main_iteration C mcp thread_id run0 s = (r, s1)"
      by (cases "main_iteration C mcp thread_id run0 s")
    show ?thesis
    proof (cases r)
      case (Inl e)
      with True it Suc.prems show ?thesis by simp
    next
      case (Inr c)
      show ?thesis
      proof (cases c)
        case (Continue run1)
        with True it Inr Suc.prems
        have "main_poll_loop fuel C mcp thread_id run1 s1 = Some (Inr run, s')" by simp
        then show ?thesis by (rule Suc.IH)
      next
        case (Break run1)
        with True it Inr Suc.prems have "run1 = run" "s1 = s'" by simp_all
        with it Inr Break main_iteration_Break [of C mcp thread_id run0 s run s']
        show ?thesis by simp
      qed
    qed
  qed
qed

lemma chat_poll_loop_exit:
  "chat_poll_loop fuel C mcp thread_id run0 s = Some (Inr run, s') \<Longrightarrow>
     status run \<notin> set active_statuses \<or>
     (status run = ''requires_action'' \<and> required_action run = SubmitToolApprovalAction []
      \<and> (\<exists>evs. snd s' = evs @ [RunsCancel thread_id (run_id run)]))"
proof (induction fuel arbitrary: run0 s)
  case 0
  then show ?case by (auto split: if_splits)
next
  case (Suc fuel)
  show ?case
  proof (cases "status run0 \<in> set active_statuses")
    case False
    with Suc.prems show ?thesis by auto
  next
    case True
    obtain r s1 where it: "chat_iteration C mcp thread_id run0 s = (r, s1)"
      by (cases "chat_iteration C mcp thread_id run0 s")
    show ?thesis
    proof (cases r)
      case (Inl e)
      with True it Suc.prems show ?thesis by simp
    next
      case (Inr c)
      show ?thesis
      proof (cases c)
        case (Continue run1)
        with True it Inr Suc.prems
        have "chat_poll_loop fuel C mcp thread_id run1 s1 = Some (Inr run, s')" by simp
        then show ?thesis by (rule Suc.IH)
      next
        case (Break run1)
        with True it Inr Suc.prems have "run1 = run" "s1 = s'" by simp_all
        with it Inr Break chat_iteration_Break [of C mcp thread_id run0 s run s']
        show ?thesis by simp
      qed
    qed
  qed
qed

text \<open>
  C3. The loop test admits exactly the three statuses. A run whose status is outside
  them ends the loop at once, without fuel, sleep or fetch. From a run inside them the
  loop sleeps one second and fetches the run again; when the fetched run asks for no
  tool approval the loop goes on from it, and so it returns that run, with nothing done
  after the fetch but the status line of \<^verbatim>\<open>main.py\<close>, as soon as its status is
  outside the three. A loop that returns a run returns one whose status is outside the
  three, or the run it has just cancelled for its empty list of tool calls.
\<close>

theorem poll_loop_runs_while_active:
  "set active_statuses = {''queued'', ''in_progress'', ''requires_action''}
   \<and> (status run \<notin> set active_statuses \<longrightarrow>
        main_poll_loop fuel C mcp thread_id run s = Some (Inr run, s)
        \<and> chat_poll_loop fuel C mcp thread_id run s = Some (Inr run, s))
   \<and> (status run0 \<in> set active_statuses
        \<and> sleep C 1 (fst s) = (Inr (), w1)
        \<and> runs_get C thread_id (run_id run0) w1 = (Inr run1, w2)
        \<and> \<not> (status run1 = ''requires_action''
              \<and> isinstance_SubmitToolApprovalAction (required_action run1)) \<longrightarrow>
        main_poll_loop (Suc fuel) C mcp thread_id run0 s =
          main_poll_loop fuel C mcp thread_id run1
            (w2, snd s @ [Sleep 1, RunsGet thread_id (run_id run0),
                          Print (''Current run status: '' @ status run1)])
        \<and> chat_poll_loop (Suc fuel) C mcp thread_id run0 s =
          chat_poll_loop fuel C mcp thread_id run1
            (w2, snd s @ [Sleep 1, RunsGet thread_id (run_id run0)]))
   \<and> (status run0 \<in> set active_statuses
        \<and> sleep C 1 (fst s) = (Inr (), w1)
        \<and> runs_get C thread_id (run_id run0) w1 = (Inr run1, w2)
        \<and> status run1 \<notin> set active_statuses \<longrightarrow>
        main_poll_loop (Suc fuel) C mcp thread_id run0 s =
          Some (Inr run1, (w2, snd s @ [Sleep 1, RunsGet thread_id (run_id run0),
                                        Print (''Current run status: '' @ status run1)]))
        \<and> chat_poll_loop (Suc fuel) C mcp thread_id run0 s =
          Some (Inr run1, (w2, snd s @ [Sleep 1, RunsGet thread_id (run_id run0)])))
   \<and> (main_poll_loop fuel C mcp thread_id run0 s = Some (Inr run', s')
        \<or> chat_poll_loop fuel C mcp thread_id run0 s = Some (Inr run', s') \<longrightarrow>
        status run' \<notin> set active_statuses
        \<or> (status run' = ''requires_action''
            \<and> required_action run' = SubmitToolApprovalAction []
            \<and> (\<exists>evs. snd s' = evs @ [RunsCancel thread_id (run_id run')])))"
proof -
  have a: "set active_statuses = {''queued'', ''in_progress'', ''requires_action''}"
    by (simp add: active_statuses_def)
  have step: "main_poll_loop (Suc fuel) C mcp thread_id run0 s =
          main_poll_loop fuel C mcp thread_id run1
            (w2, snd s @ [Sleep 1, RunsGet thread_id (run_id run0),
                          Print (''Current run status: '' @ status run1)])
        \<and> chat_poll_loop (Suc fuel) C mcp thread_id run0 s =
          chat_poll_loop fuel C mcp thread_id run1
            (w2, snd s @ [Sleep 1, RunsGet thread_id (run_id run0)])"
    if "status run0 \<in> set active_statuses" "sleep C 1 (fst s) = (Inr (), w1)"
      "runs_get C thread_id (run_id run0) w1 = (Inr run1, w2)"
      "\<not> (status run1 = ''requires_action''
          \<and> isinstance_SubmitToolApprovalAction (required_action run1))"
    using that(1,4)
    by (auto simp add: main_iteration_eq [OF that(2,3)] chat_iteration_eq [OF that(2,3)])
  have stop: "main_poll_loop (Suc fuel) C mcp thread_id run0 s =
          Some (Inr run1, (w2, snd s @ [Sleep 1, RunsGet thread_id (run_id run0),
                                        Print (''Current run status: '' @ status run1)]))
        \<and> chat_poll_loop (Suc fuel) C mcp thread_id run0 s =
          Some (Inr run1, (w2, snd s @ [Sleep 1, RunsGet thread_id (run_id run0)]))"
    if "status run0 \<in> set active_statuses" "sleep C 1 (fst s) = (Inr (), w1)"
      "runs_get C thread_id (run_id run0) w1 = (Inr run1, w2)"
      "status run1 \<notin> set active_statuses"
  proof -
    from that(4) have "status run1 \<noteq> ''requires_action''"
      by (auto simp: active_statuses_def)
    with that(1,4) show ?thesis
      by (simp add: main_iteration_eq [OF that(2,3)] chat_iteration_eq [OF that(2,3)]
            main_poll_loop_ended chat_poll_loop_ended)
  qed
  from a step stop show ?thesis
    using main_poll_loop_ended [of run fuel C mcp thread_id s]
      chat_poll_loop_ended [of run fuel C mcp thread_id s]
      main_poll_loop_exit [of fuel C mcp thread_id run0 s run' s']
      chat_poll_loop_exit [of fuel C mcp thread_id run0 s run' s']
    by blast
qed

theorem poll_loop_runs_while_active_witness:
  "status (run_with ''queued'' NoAction) \<in> set active_statuses
   \<and> sleep (scripted_client [run_with ''failed'' NoAction]) 1 (fst (0, [])) = (Inr (), 0)
   \<and> runs_get (scripted_client [run_with ''failed'' NoAction]) ''thread_1''
        (run_id (run_with ''queued'' NoAction)) 0 = (Inr (run_with ''failed'' NoAction), Suc 0)
   \<and> status (run_with ''failed'' NoAction) \<notin> set active_statuses
   \<and> main_poll_loop (Suc 7) (scripted_client [run_with ''failed'' NoAction]) (example_tool [])
        ''thread_1'' (run_with ''queued'' NoAction) (0, []) =
      Some (Inr (run_with ''failed'' NoAction),
            (Suc 0, [Sleep 1, RunsGet ''thread_1'' ''run_1'', Print ''Current run status: failed'']))
   \<and> chat_poll_loop (Suc 7) (scripted_client [run_with ''failed'' NoAction]) (example_tool [])
        ''thread_1'' (run_with ''queued'' NoAction) (0, []) =
      Some (Inr (run_with ''failed'' NoAction),
            (Suc 0, [Sleep 1, RunsGet ''thread_1'' ''run_1'']))"
proof -
  have h: "status (run_with ''queued'' NoAction) \<in> set active_statuses"
    "sleep (scripted_client [run_with ''failed'' NoAction]) 1 (fst (0::nat, [])) = (Inr (), 0)"
    "runs_get (scripted_client [run_with ''failed'' NoAction]) ''thread_1''
        (run_id (run_with ''queued'' NoAction)) 0 = (Inr (run_with ''failed'' NoAction), Suc 0)"
    "status (run_with ''failed'' NoAction) \<notin> set active_statuses"
    by (simp_all add: run_with_def active_statuses_def scripted_client_def)
  have "main_poll_loop (Suc 7) (scripted_client [run_with ''failed'' NoAction]) (example_tool [])
        ''thread_1'' (run_with ''queued'' NoAction) (0, []) =
      Some (Inr (run_with ''failed'' NoAction),
            (Suc 0, snd (0::nat, []) @ [Sleep 1, RunsGet ''thread_1'' (run_id (run_with ''queued'' NoAction)),
                     Print (''Current run status: '' @ status (run_with ''failed'' NoAction))]))
   \<and> chat_poll_loop (Suc 7) (scripted_client [run_with ''failed'' NoAction]) (example_tool [])
        ''thread_1'' (run_with ''queued'' NoAction) (0, []) =
      Some (Inr (run_with ''failed'' NoAction),
            (Suc 0, snd (0::nat, []) @ [Sleep 1, RunsGet ''thread_1'' (run_id (run_with ''queued'' NoAction))]))"
    using h poll_loop_runs_while_active
      [where ?run0.0 = "run_with ''queued'' NoAction" and ?run1.0 = "run_with ''failed'' NoAction"
         and C = "scripted_client [run_with ''failed'' NoAction]" and s = "(0, [])"
         and ?w1.0 = 0 and ?w2.0 = "Suc 0" and thread_id = "''thread_1''" and fuel = 7
         and mcp = "example_tool []" and run = "run_with ''failed'' NoAction"
         and run' = "run_with ''failed'' NoAction" and s' = "(0, [])"]
    by blast
  with h show ?thesis
    by (simp add: run_with_def)
qed

text \<open>
  C2. When the fetched run requires action and its tool approval request carries no
  tool call, the iteration prints its notice and cancels the run, and the loop ends
  there whatever fuel is left: with the fetched run when the cancellation returns, with
  the exception when it raises. Nothing follows the cancellation in the trace.
\<close>

theorem empty_tool_calls_cancel_and_break:
  assumes "status run0 \<in> set active_statuses"
    and "sleep C 1 (fst s) = (Inr (), w1)"
    and "runs_get C thread_id (run_id run0) w1 = (Inr run, w2)"
    and "status run = ''requires_action''"
    and "required_action run = SubmitToolApprovalAction []"
    and "runs_cancel C thread_id (run_id run) w2 = (r, w3)"
  shows "main_poll_loop (Suc fuel) C mcp thread_id run0 s =
           Some (map_sum id (\<lambda>_. run) r,
                 (w3, snd s @ [Sleep 1, RunsGet thread_id (run_id run0),
                               Print ''No tool calls provided - cancelling run'',
                               RunsCancel thread_id (run_id run)]))
       \<and> chat_poll_loop (Suc fuel) C mcp thread_id run0 s =
           Some (map_sum id (\<lambda>_. run) r,
                 (w3, snd s @ [Sleep 1, RunsGet thread_id (run_id run0),
                               Print ''No tool calls provided - cancelling run'',
                               RunsCancel thread_id (run_id run)]))"
  using assms(1,4,5,6)
  by (cases r)
     (simp_all add: main_iteration_eq [OF assms(2,3)] chat_iteration_eq [OF assms(2,3)]
        main_handle_approvals_empty chat_handle_approvals_empty)

theorem empty_tool_calls_cancel_and_break_witness:
  "main_poll_loop (Suc 7)
      (scripted_client [run_with ''requires_action'' (SubmitToolApprovalAction [])])
      (example_tool []) ''thread_1'' (run_with ''queued'' NoAction) (0, []) =
     Some (Inr (run_with ''requires_action'' (SubmitToolApprovalAction [])),
           (Suc 0, [Sleep 1, RunsGet ''thread_1'' ''run_1'',
                    Print ''No tool calls provided - cancelling run'',
                    RunsCancel ''thread_1'' ''run_1'']))
   \<and> chat_poll_loop (Suc 7)
      (scripted_client [run_with ''requires_action'' (SubmitToolApprovalAction [])])
      (example_tool []) ''thread_1'' (run_with ''queued'' NoAction) (0, []) =
     Some (Inr (run_with ''requires_action'' (SubmitToolApprovalAction [])),
           (Suc 0, [Sleep 1, RunsGet ''thread_1'' ''run_1'',
                    Print ''No tool calls provided - cancelling run'',
                    RunsCancel ''thread_1'' ''run_1'']))"
proof -
  let ?run = "run_with ''requires_action'' (SubmitToolApprovalAction [])"
  have h: "status (run_with ''queued'' NoAction) \<in> set active_statuses"
    "sleep (scripted_client [?run]) 1 (fst (0::nat, [])) = (Inr (), 0)"
    "runs_get (scripted_client [?run]) ''thread_1'' (run_id (run_with ''queued'' NoAction)) 0 =
       (Inr ?run, Suc 0)"
    "status ?run = ''requires_action''"
    "required_action ?run = SubmitToolApprovalAction []"
    "runs_cancel (scripted_client [?run]) ''thread_1'' (run_id ?run) (Suc 0) = (Inr (), Suc 0)"
    by (simp_all add: run_with_def active_statuses_def scripted_client_def)
  show ?thesis
    using empty_tool_calls_cancel_and_break [OF h, of 7 "example_tool []"]
    by (simp add: run_with_def)
qed

section \<open>The approval loop: what an iteration approves and submits\<close>

lemma submissions_append: "submissions (xs @ ys) = submissions xs @ submissions ys"
  by (induction xs rule: submissions.induct) simp_all

lemma submissions_Print: "submissions (map Print ls) = []"
  by (induction ls) simp_all

lemma approvals_for_append:
  "approvals_for C hs (xs @ ys) = approvals_for C hs xs @ approvals_for C hs ys"
  by (simp add: approvals_for_def)

lemma approvals_for_raises:
  "ToolApproval_raises C tc = Some e \<Longrightarrow> approvals_for C hs (tc # tcs) = approvals_for C hs tcs"
  by (simp add: approvals_for_def approvable_def)

lemma main_for_lines_no_mcp:
  "\<forall>tc \<in> set tcs. \<not> is_RequiredMcpToolCall tc \<Longrightarrow> main_for_lines C tcs = []"
  by (induction tcs) simp_all

lemma chat_for_lines_no_mcp:
  "\<forall>tc \<in> set tcs. \<not> is_RequiredMcpToolCall tc \<Longrightarrow> chat_for_lines C tcs = []"
  by (induction tcs) simp_all

lemma approvals_for_no_mcp:
  "\<forall>tc \<in> set tcs. \<not> is_RequiredMcpToolCall tc \<Longrightarrow> approvals_for C hs tcs = []"
  by (induction tcs) (simp_all add: approvals_for_def approvable_def)

lemma main_for_lines_error:
  "tc \<in> set tcs \<Longrightarrow> is_RequiredMcpToolCall tc \<Longrightarrow> ToolApproval_raises C tc = Some e \<Longrightarrow>
     (''Error approving tool_call '' @ tc_id tc @ '': '' @ e) \<in> set (main_for_lines C tcs)"
proof (induction tcs)
  case Nil
  then show ?case by simp
next
  case (Cons a tcs)
  then show ?case by (cases "a = tc") auto
qed

lemma chat_for_lines_error:
  "tc \<in> set tcs \<Longrightarrow> is_RequiredMcpToolCall tc \<Longrightarrow> ToolApproval_raises C tc = Some e \<Longrightarrow>
     (''Error approving tool_call '' @ tc_id tc @ '': '' @ e) \<in> set (chat_for_lines C tcs)"
proof (induction tcs)
  case Nil
  then show ?case by simp
next
  case (Cons a tcs)
  show ?case
  proof (cases "a = tc")
    case True
    with Cons.prems show ?thesis by simp
  next
    case False
    with Cons
    have "(''Error approving tool_call '' @ tc_id tc @ '': '' @ e) \<in> set (chat_for_lines C tcs)"
      by simp
    then show ?thesis
      by (simp only: chat_for_lines.simps set_append Un_iff simp_thms)
  qed
qed

lemma main_iteration_approvals:
  assumes "sleep C 1 (fst s) = (Inr (), w1)"
    and "runs_get C thread_id (run_id run0) w1 = (Inr run, w2)"
    and "status run = ''requires_action''"
    and "required_action run = SubmitToolApprovalAction tcs"
    and "tcs \<noteq> []"
  shows "main_iteration C mcp thread_id run0 s =
     (let tas = approvals_for C (mcp_headers mcp) tcs;
          tr = snd s @ [Sleep 1, RunsGet thread_id (run_id run0)] @
                 map Print (main_for_lines C tcs) @
                 [Print (''tool_approvals: '' @ str_tool_approvals C tas)]
      in if tas = []
         then (Inr (Continue run), (w2, tr @ [Print ''Current run status: requires_action'']))
         else (case submit_tool_outputs C thread_id (run_id run) tas w2 of
                 (Inl e, w3) \<Rightarrow> (Inl e, (w3, tr @ [SubmitToolOutputs thread_id (run_id run) tas]))
               | (Inr u, w3) \<Rightarrow>
                   (Inr (Continue run),
                    (w3, tr @ [SubmitToolOutputs thread_id (run_id run) tas,
                               Print ''Current run status: requires_action'']))))"
  using assms(3,4,5)
  by (simp add: main_iteration_eq [OF assms(1,2)] main_handle_approvals_eq Let_def
        split: prod.splits sum.splits)

lemma chat_iteration_approvals:
  assumes "sleep C 1 (fst s) = (Inr (), w1)"
    and "runs_get C thread_id (run_id run0) w1 = (Inr run, w2)"
    and "status run = ''requires_action''"
    and "required_action run = SubmitToolApprovalAction tcs"
    and "tcs \<noteq> []"
  shows "chat_iteration C mcp thread_id run0 s =
     (let tas = approvals_for C (mcp_headers mcp) tcs;
          tr = snd s @ [Sleep 1, RunsGet thread_id (run_id run0)] @
                 map Print (chat_for_lines C tcs)
      in if tas = [] then (Inr (Continue run), (w2, tr))
         else (case submit_tool_outputs C thread_id (run_id run) tas w2 of
                 (Inl e, w3) \<Rightarrow> (Inl e, (w3, tr @ [SubmitToolOutputs thread_id (run_id run) tas]))
               | (Inr u, w3) \<Rightarrow>
                   (Inr (Continue run),
                    (w3, tr @ [SubmitToolOutputs thread_id (run_id run) tas]))))"
  using assms(3,4,5)
  by (simp add: chat_iteration_eq [OF assms(1,2)] chat_handle_approvals_eq Let_def
        split: prod.splits sum.splits)

lemma main_iteration_submissions:
  assumes "sleep C 1 (fst s) = (Inr (), w1)"
    and "runs_get C thread_id (run_id run0) w1 = (Inr run, w2)"
    and "status run = ''requires_action''"
    and "required_action run = SubmitToolApprovalAction tcs"
    and "tcs \<noteq> []"
  shows "submissions (snd (snd (main_iteration C mcp thread_id run0 s))) =
     submissions (snd s) @
     (if approvals_for C (mcp_headers mcp) tcs = [] then []
      else [approvals_for C (mcp_headers mcp) tcs])"
  by (simp add: main_iteration_approvals [OF assms] Let_def submissions_append submissions_Print
        split: prod.splits sum.splits)

lemma chat_iteration_submissions:
  assumes "sleep C 1 (fst s) = (Inr (), w1)"
    and "runs_get C thread_id (run_id run0) w1 = (Inr run, w2)"
    and "status run = ''requires_action''"
    and "required_action run = SubmitToolApprovalAction tcs"
    and "tcs \<noteq> []"
  shows "submissions (snd (snd (chat_iteration C mcp thread_id run0 s))) =
     submissions (snd s) @
     (if approvals_for C (mcp_headers mcp) tcs = [] then []
      else [approvals_for C (mcp_headers mcp) tcs])"
  by (simp add: chat_iteration_approvals [OF assms] Let_def submissions_append submissions_Print
        split: prod.splits sum.splits)

text \<open>
  C9. In an iteration whose fetched run requires action with a tool approval request
  of at least one tool call, the approval records built are those of the tool calls of
  class \<^verbatim>\<open>RequiredMcpToolCall\<close> (whose record is built without an exception), in
  order. The batch is submitted if and only if that list is not empty: with an empty
  list the iteration calls nothing after the fetch, with a non-empty one it makes the
  single submission. When no tool call is of the class, nothing is submitted and the
  loop goes on polling from the fetched run.
\<close>

theorem approvals_only_for_mcp_tool_calls:
  assumes "sleep C 1 (fst s) = (Inr (), w1)"
    and "runs_get C thread_id (run_id run0) w1 = (Inr run, w2)"
    and "status run = ''requires_action''"
    and "required_action run = SubmitToolApprovalAction tcs"
    and "tcs \<noteq> []"
    and "status run0 \<in> set active_statuses"
  shows "approvals_for C (mcp_headers mcp) tcs =
           map (\<lambda>tc. \<lparr>tool_call_id = tc_id tc, approve = True, headers = mcp_headers mcp\<rparr>)
             (filter (\<lambda>tc. is_RequiredMcpToolCall tc \<and> ToolApproval_raises C tc = None) tcs)
       \<and> main_iteration C mcp thread_id run0 s =
           (let tas = approvals_for C (mcp_headers mcp) tcs;
                tr = snd s @ [Sleep 1, RunsGet thread_id (run_id run0)] @
                       map Print (main_for_lines C tcs) @
                       [Print (''tool_approvals: '' @ str_tool_approvals C tas)]
            in if tas = []
               then (Inr (Continue run), (w2, tr @ [Print ''Current run status: requires_action'']))
               else (case submit_tool_outputs C thread_id (run_id run) tas w2 of
                       (Inl e, w3) \<Rightarrow>
                         (Inl e, (w3, tr @ [SubmitToolOutputs thread_id (run_id run) tas]))
                     | (Inr u, w3) \<Rightarrow>
                         (Inr (Continue run),
                          (w3, tr @ [SubmitToolOutputs thread_id (run_id run) tas,
                                     Print ''Current run status: requires_action'']))))
       \<and> chat_iteration C mcp thread_id run0 s =
           (let tas = approvals_for C (mcp_headers mcp) tcs;
                tr = snd s @ [Sleep 1, RunsGet thread_id (run_id run0)] @
                       map Print (chat_for_lines C tcs)
            in if tas = [] then (Inr (Continue run), (w2, tr))
               else (case submit_tool_outputs C thread_id (run_id run) tas w2 of
                       (Inl e, w3) \<Rightarrow>
                         (Inl e, (w3, tr @ [SubmitToolOutputs thread_id (run_id run) tas]))
                     | (Inr u, w3) \<Rightarrow>
                         (Inr (Continue run),
                          (w3, tr @ [SubmitToolOutputs thread_id (run_id run) tas]))))
       \<and> ((\<forall>tc \<in> set tcs. \<not> is_RequiredMcpToolCall tc) \<longrightarrow>
            main_poll_loop (Suc fuel) C mcp thread_id run0 s =
              main_poll_loop fuel C mcp thread_id run
                (w2, snd s @ [Sleep 1, RunsGet thread_id (run_id run0),
                              Print (''tool_approvals: '' @ str_tool_approvals C []),
                              Print ''Current run status: requires_action''])
            \<and> chat_poll_loop (Suc fuel) C mcp thread_id run0 s =
              chat_poll_loop fuel C mcp thread_id run
                (w2, snd s @ [Sleep 1, RunsGet thread_id (run_id run0)]))"
proof -
  note m = main_iteration_approvals [OF assms(1-5), of mcp]
  note c = chat_iteration_approvals [OF assms(1-5), of mcp]
  have a: "approvals_for C (mcp_headers mcp) tcs =
           map (\<lambda>tc. \<lparr>tool_call_id = tc_id tc, approve = True, headers = mcp_headers mcp\<rparr>)
             (filter (\<lambda>tc. is_RequiredMcpToolCall tc \<and> ToolApproval_raises C tc = None) tcs)"
    by (simp add: approvals_for_def approval_def [abs_def] approvable_def [abs_def])
  have n: "main_poll_loop (Suc fuel) C mcp thread_id run0 s =
              main_poll_loop fuel C mcp thread_id run
                (w2, snd s @ [Sleep 1, RunsGet thread_id (run_id run0),
                              Print (''tool_approvals: '' @ str_tool_approvals C []),
                              Print ''Current run status: requires_action''])
            \<and> chat_poll_loop (Suc fuel) C mcp thread_id run0 s =
              chat_poll_loop fuel C mcp thread_id run
                (w2, snd s @ [Sleep 1, RunsGet thread_id (run_id run0)])"
    if "\<forall>tc \<in> set tcs. \<not> is_RequiredMcpToolCall tc"
    using assms(6)
    by (simp add: m c approvals_for_no_mcp [OF that] main_for_lines_no_mcp [OF that]
          chat_for_lines_no_mcp [OF that])
  from a m c n show ?thesis by blast
qed

theorem approvals_only_for_mcp_tool_calls_witness:
  "main_iteration
      (scripted_client [run_with ''requires_action''
         (SubmitToolApprovalAction [RequiredMcpToolCall ''call_1'', RequiredFunctionToolCall ''call_2''])])
      (example_tool [(''Authorization'', ''Bearer secret'')]) ''thread_1''
      (run_with ''queued'' NoAction) (0, []) =
     (Inr (Continue (run_with ''requires_action''
         (SubmitToolApprovalAction [RequiredMcpToolCall ''call_1'', RequiredFunctionToolCall ''call_2'']))),
      (Suc 0,
       [Sleep 1, RunsGet ''thread_1'' ''run_1'', Print ''Approving tool call: call_1'',
        Print ''tool_approvals: [call_1]'',
        SubmitToolOutputs ''thread_1'' ''run_1''
          [\<lparr>tool_call_id = ''call_1'', approve = True,
            headers = [(''Authorization'', ''Bearer secret'')]\<rparr>],
        Print ''Current run status: requires_action'']))
   \<and> chat_iteration
      (scripted_client [run_with ''requires_action''
         (SubmitToolApprovalAction [RequiredMcpToolCall ''call_1'', RequiredFunctionToolCall ''call_2''])])
      (example_tool [(''Authorization'', ''Bearer secret'')]) ''thread_1''
      (run_with ''queued'' NoAction) (0, []) =
     (Inr (Continue (run_with ''requires_action''
         (SubmitToolApprovalAction [RequiredMcpToolCall ''call_1'', RequiredFunctionToolCall ''call_2'']))),
      (Suc 0,
       [Sleep 1, RunsGet ''thread_1'' ''run_1'',
        SubmitToolOutputs ''thread_1'' ''run_1''
          [\<lparr>tool_call_id = ''call_1'', approve = True,
            headers = [(''Authorization'', ''Bearer secret'')]\<rparr>]]))"
proof -
  let ?tcs = "[RequiredMcpToolCall ''call_1'', RequiredFunctionToolCall ''call_2'']"
  let ?run = "run_with ''requires_action'' (SubmitToolApprovalAction ?tcs)"
  let ?C = "scripted_client [?run]"
  let ?mcp = "example_tool [(''Authorization'', ''Bearer secret'')]"
  have h: "sleep ?C 1 (fst (0::nat, [])) = (Inr (), 0)"
    "runs_get ?C ''thread_1'' (run_id (run_with ''queued'' NoAction)) 0 = (Inr ?run, Suc 0)"
    "status ?run = ''requires_action''"
    "required_action ?run = SubmitToolApprovalAction ?tcs"
    "?tcs \<noteq> []"
    "status (run_with ''queued'' NoAction) \<in> set active_statuses"
    by (simp_all add: run_with_def active_statuses_def scripted_client_def)
  have v: "approvals_for ?C (mcp_headers ?mcp) ?tcs =
      [\<lparr>tool_call_id = ''call_1'', approve = True, headers = [(''Authorization'', ''Bearer secret'')]\<rparr>]"
    "main_for_lines ?C ?tcs = [''Approving tool call: call_1'']"
    "chat_for_lines ?C ?tcs = []"
    "str_tool_approvals ?C
       [\<lparr>tool_call_id = ''call_1'', approve = True, headers = [(''Authorization'', ''Bearer secret'')]\<rparr>] =
     ''[call_1]''"
    "submit_tool_outputs ?C ''thread_1'' (run_id ?run)
       [\<lparr>tool_call_id = ''call_1'', approve = True, headers = [(''Authorization'', ''Bearer secret'')]\<rparr>]
       (Suc 0) = (Inr (), Suc 0)"
    by (simp_all add: approvals_for_def approvable_def approval_def example_tool_def
          scripted_client_def run_with_def)
  from approvals_only_for_mcp_tool_calls [OF h, of ?mcp 0]
  have "main_iteration ?C ?mcp ''thread_1'' (run_with ''queued'' NoAction) (0, []) =
           (let tas = approvals_for ?C (mcp_headers ?mcp) ?tcs;
                tr = snd (0::nat, []) @ [Sleep 1, RunsGet ''thread_1'' (run_id (run_with ''queued'' NoAction))] @
                       map Print (main_for_lines ?C ?tcs) @
                       [Print (''tool_approvals: '' @ str_tool_approvals ?C tas)]
            in if tas = []
               then (Inr (Continue ?run), (Suc 0, tr @ [Print ''Current run status: requires_action'']))
               else (case submit_tool_outputs ?C ''thread_1'' (run_id ?run) tas (Suc 0) of
                       (Inl e, w3) \<Rightarrow>
                         (Inl e, (w3, tr @ [SubmitToolOutputs ''thread_1'' (run_id ?run) tas]))
                     | (Inr u, w3) \<Rightarrow>
                         (Inr (Continue ?run),
                          (w3, tr @ [SubmitToolOutputs ''thread_1'' (run_id ?run) tas,
                                     Print ''Current run status: requires_action'']))))"
    and "chat_iteration ?C ?mcp ''thread_1'' (run_with ''queued'' NoAction) (0, []) =
           (let tas = approvals_for ?C (mcp_headers ?mcp) ?tcs;
                tr = snd (0::nat, []) @ [Sleep 1, RunsGet ''thread_1'' (run_id (run_with ''queued'' NoAction))] @
                       map Print (chat_for_lines ?C ?tcs)
            in if tas = [] then (Inr (Continue ?run), (Suc 0, tr))
               else (case submit_tool_outputs ?C ''thread_1'' (run_id ?run) tas (Suc 0) of
                       (Inl e, w3) \<Rightarrow>
                         (Inl e, (w3, tr @ [SubmitToolOutputs ''thread_1'' (run_id ?run) tas]))
                     | (Inr u, w3) \<Rightarrow>
                         (Inr (Continue ?run),
                          (w3, tr @ [SubmitToolOutputs ''thread_1'' (run_id ?run) tas]))))"
    by blast+
  then show ?thesis
    by (simp add: v Let_def) (simp add: run_with_def scripted_client_def)
qed

text \<open>
  C1, as stated, fails: a pending tool call that is not of class
  \<^verbatim>\<open>RequiredMcpToolCall\<close> receives no approval record, and with no record built
  nothing is submitted. Here the request carries the single function tool call
  \<open>call_2\<close>; both scripts fetch it and submit nothing.
\<close>

theorem function_tool_call_not_approved:
  "main_iteration
      (scripted_client [run_with ''requires_action''
         (SubmitToolApprovalAction [RequiredFunctionToolCall ''call_2''])])
      (example_tool [(''Authorization'', ''Bearer secret'')]) ''thread_1''
      (run_with ''queued'' NoAction) (0, []) =
     (Inr (Continue (run_with ''requires_action''
         (SubmitToolApprovalAction [RequiredFunctionToolCall ''call_2'']))),
      (Suc 0,
       [Sleep 1, RunsGet ''thread_1'' ''run_1'', Print ''tool_approvals: []'',
        Print ''Current run status: requires_action'']))
   \<and> chat_iteration
      (scripted_client [run_with ''requires_action''
         (SubmitToolApprovalAction [RequiredFunctionToolCall ''call_2''])])
      (example_tool [(''Authorization'', ''Bearer secret'')]) ''thread_1''
      (run_with ''queued'' NoAction) (0, []) =
     (Inr (Continue (run_with ''requires_action''
         (SubmitToolApprovalAction [RequiredFunctionToolCall ''call_2'']))),
      (Suc 0, [Sleep 1, RunsGet ''thread_1'' ''run_1'']))"
  by (simp add: main_iteration_def chat_iteration_def main_handle_approvals_def
        chat_handle_approvals_def bindE_def call_def print_def return_def Let_def
        scripted_client_def run_with_def example_tool_def)

text \<open>
  C1, amended. In an iteration whose fetched run requires action with a tool approval
  request of at least one tool call, every tool call of class
  \<^verbatim>\<open>RequiredMcpToolCall\<close> whose record is built without an exception receives exactly
  one approval record, in the order of the tool calls, with \<^verbatim>\<open>approve\<close> true and the
  headers of the configured tool; the iteration adds to the submissions of the trace
  exactly one batch, holding all these records (and none when there is no such tool
  call). When every pending tool call is such a tool call, there is one record for each.
\<close>

theorem mcp_tool_calls_approved_in_one_batch:
  assumes "sleep C 1 (fst s) = (Inr (), w1)"
    and "runs_get C thread_id (run_id run0) w1 = (Inr run, w2)"
    and "status run = ''requires_action''"
    and "required_action run = SubmitToolApprovalAction tcs"
    and "tcs \<noteq> []"
  shows "submissions (snd (snd (main_iteration C mcp thread_id run0 s))) =
           submissions (snd s) @
           (if approvals_for C (mcp_headers mcp) tcs = [] then []
            else [approvals_for C (mcp_headers mcp) tcs])
       \<and> submissions (snd (snd (chat_iteration C mcp thread_id run0 s))) =
           submissions (snd s) @
           (if approvals_for C (mcp_headers mcp) tcs = [] then []
            else [approvals_for C (mcp_headers mcp) tcs])
       \<and> map tool_call_id (approvals_for C (mcp_headers mcp) tcs) =
           map tc_id (filter (\<lambda>tc. is_RequiredMcpToolCall tc \<and> ToolApproval_raises C tc = None) tcs)
       \<and> (\<forall>a \<in> set (approvals_for C (mcp_headers mcp) tcs).
             approve a \<and> headers a = mcp_headers mcp)
       \<and> ((\<forall>tc \<in> set tcs. is_RequiredMcpToolCall tc \<and> ToolApproval_raises C tc = None) \<longrightarrow>
             approvals_for C (mcp_headers mcp) tcs =
               map (\<lambda>tc. \<lparr>tool_call_id = tc_id tc, approve = True, headers = mcp_headers mcp\<rparr>) tcs)"
proof -
  have a: "map tool_call_id (approvals_for C (mcp_headers mcp) tcs) =
           map tc_id (filter (\<lambda>tc. is_RequiredMcpToolCall tc \<and> ToolApproval_raises C tc = None) tcs)"
    by (simp add: approvals_for_def approval_def [abs_def] approvable_def [abs_def] comp_def)
  have b: "\<forall>a \<in> set (approvals_for C (mcp_headers mcp) tcs).
             approve a \<and> headers a = mcp_headers mcp"
    by (auto simp: approvals_for_def approval_def)
  have c: "approvals_for C (mcp_headers mcp) tcs =
               map (\<lambda>tc. \<lparr>tool_call_id = tc_id tc, approve = True, headers = mcp_headers mcp\<rparr>) tcs"
    if "\<forall>tc \<in> set tcs. is_RequiredMcpToolCall tc \<and> ToolApproval_raises C tc = None"
  proof -
    from that have "filter (approvable C) tcs = tcs"
      by (simp add: approvable_def)
    then show ?thesis
      by (simp add: approvals_for_def approval_def [abs_def])
  qed
  from a b c main_iteration_submissions [OF assms, of mcp]
    chat_iteration_submissions [OF assms, of mcp]
  show ?thesis by blast
qed

theorem mcp_tool_calls_approved_in_one_batch_witness:
  "submissions (snd (snd (main_iteration
      (scripted_client [run_with ''requires_action''
         (SubmitToolApprovalAction [RequiredMcpToolCall ''call_1'', RequiredMcpToolCall ''call_2''])])
      (example_tool [(''Authorization'', ''Bearer secret'')]) ''thread_1''
      (run_with ''queued'' NoAction) (0, [])))) =
     [[\<lparr>tool_call_id = ''call_1'', approve = True, headers = [(''Authorization'', ''Bearer secret'')]\<rparr>,
       \<lparr>tool_call_id = ''call_2'', approve = True, headers = [(''Authorization'', ''Bearer secret'')]\<rparr>]]
   \<and> submissions (snd (snd (chat_iteration
      (scripted_client [run_with ''requires_action''
         (SubmitToolApprovalAction [RequiredMcpToolCall ''call_1'', RequiredMcpToolCall ''call_2''])])
      (example_tool [(''Authorization'', ''Bearer secret'')]) ''thread_1''
      (run_with ''queued'' NoAction) (0, [])))) =
     [[\<lparr>tool_call_id = ''call_1'', approve = True, headers = [(''Authorization'', ''Bearer secret'')]\<rparr>,
       \<lparr>tool_call_id = ''call_2'', approve = True, headers = [(''Authorization'', ''Bearer secret'')]\<rparr>]]"
proof -
  let ?tcs = "[RequiredMcpToolCall ''call_1'', RequiredMcpToolCall ''call_2'']"
  let ?run = "run_with ''requires_action'' (SubmitToolApprovalAction ?tcs)"
  let ?C = "scripted_client [?run]"
  let ?mcp = "example_tool [(''Authorization'', ''Bearer secret'')]"
  have h: "sleep ?C 1 (fst (0::nat, [])) = (Inr (), 0)"
    "runs_get ?C ''thread_1'' (run_id (run_with ''queued'' NoAction)) 0 = (Inr ?run, Suc 0)"
    "status ?run = ''requires_action''"
    "required_action ?run = SubmitToolApprovalAction ?tcs"
    "?tcs \<noteq> []"
    by (simp_all add: run_with_def scripted_client_def)
  have v: "approvals_for ?C (mcp_headers ?mcp) ?tcs =
     [\<lparr>tool_call_id = ''call_1'', approve = True, headers = [(''Authorization'', ''Bearer secret'')]\<rparr>,
      \<lparr>tool_call_id = ''call_2'', approve = True, headers = [(''Authorization'', ''Bearer secret'')]\<rparr>]"
    by (simp add: approvals_for_def approvable_def approval_def example_tool_def scripted_client_def)
  from mcp_tool_calls_approved_in_one_batch [OF h, of ?mcp]
  have "submissions (snd (snd (main_iteration ?C ?mcp ''thread_1'' (run_with ''queued'' NoAction) (0, [])))) =
           submissions (snd (0::nat, [])) @
           (if approvals_for ?C (mcp_headers ?mcp) ?tcs = [] then []
            else [approvals_for ?C (mcp_headers ?mcp) ?tcs])"
    and "submissions (snd (snd (chat_iteration ?C ?mcp ''thread_1'' (run_with ''queued'' NoAction) (0, [])))) =
           submissions (snd (0::nat, [])) @
           (if approvals_for ?C (mcp_headers ?mcp) ?tcs = [] then []
            else [approvals_for ?C (mcp_headers ?mcp) ?tcs])"
    by blast+
  then show ?thesis
    by (simp add: v)
qed

text \<open>
  C7, as stated, fails where it says that the batch is still submitted: when the only
  approval record of an iteration cannot be built, the failure is caught and printed,
  the list of approvals stays empty, and the guard on that list skips the submission.
\<close>

theorem failed_only_approval_submits_nothing:
  "main_iteration
      (scripted_client [run_with ''requires_action''
         (SubmitToolApprovalAction [RequiredMcpToolCall ''bad''])])
      (example_tool []) ''thread_1'' (run_with ''queued'' NoAction) (0, []) =
     (Inr (Continue (run_with ''requires_action''
         (SubmitToolApprovalAction [RequiredMcpToolCall ''bad'']))),
      (Suc 0,
       [Sleep 1, RunsGet ''thread_1'' ''run_1'', Print ''Approving tool call: bad'',
        Print ''Error approving tool_call bad: boom'', Print ''tool_approvals: []'',
        Print ''Current run status: requires_action'']))
   \<and> chat_iteration
      (scripted_client [run_with ''requires_action''
         (SubmitToolApprovalAction [RequiredMcpToolCall ''bad''])])
      (example_tool []) ''thread_1'' (run_with ''queued'' NoAction) (0, []) =
     (Inr (Continue (run_with ''requires_action''
         (SubmitToolApprovalAction [RequiredMcpToolCall ''bad'']))),
      (Suc 0,
       [Sleep 1, RunsGet ''thread_1'' ''run_1'', Print ''Error approving tool_call bad: boom'']))"
  by (simp add: main_iteration_def chat_iteration_def main_handle_approvals_def
        chat_handle_approvals_def bindE_def call_def print_def return_def Let_def
        scripted_client_def run_with_def example_tool_def)

text \<open>
  C7, amended. When building the approval record of one tool call raises, the
  exception is caught there and its line is printed; the tool calls before and after it
  are processed as without it, and the approvals built for them are submitted in one
  batch when there is at least one (nothing is submitted when there is none). The
  iteration raises only if that submission raises.
\<close>

theorem approval_failure_does_not_abort_batch:
  assumes "sleep C 1 (fst s) = (Inr (), w1)"
    and "runs_get C thread_id (run_id run0) w1 = (Inr run, w2)"
    and "status run = ''requires_action''"
    and "required_action run = SubmitToolApprovalAction (pre @ tc # post)"
    and "is_RequiredMcpToolCall tc"
    and "ToolApproval_raises C tc = Some e"
  shows "Print (''Error approving tool_call '' @ tc_id tc @ '': '' @ e)
           \<in> set (snd (snd (main_iteration C mcp thread_id run0 s)))
       \<and> Print (''Error approving tool_call '' @ tc_id tc @ '': '' @ e)
           \<in> set (snd (snd (chat_iteration C mcp thread_id run0 s)))
       \<and> submissions (snd (snd (main_iteration C mcp thread_id run0 s))) =
           submissions (snd s) @
           (if approvals_for C (mcp_headers mcp) pre @ approvals_for C (mcp_headers mcp) post = []
            then []
            else [approvals_for C (mcp_headers mcp) pre @ approvals_for C (mcp_headers mcp) post])
       \<and> submissions (snd (snd (chat_iteration C mcp thread_id run0 s))) =
           submissions (snd s) @
           (if approvals_for C (mcp_headers mcp) pre @ approvals_for C (mcp_headers mcp) post = []
            then []
            else [approvals_for C (mcp_headers mcp) pre @ approvals_for C (mcp_headers mcp) post])
       \<and> (\<forall>x. fst (main_iteration C mcp thread_id run0 s) = Inl x
                \<or> fst (chat_iteration C mcp thread_id run0 s) = Inl x \<longrightarrow>
              approvals_for C (mcp_headers mcp) pre @ approvals_for C (mcp_headers mcp) post \<noteq> []
              \<and> fst (submit_tool_outputs C thread_id (run_id run)
                       (approvals_for C (mcp_headers mcp) pre @ approvals_for C (mcp_headers mcp) post)
                       w2) = Inl x)"
proof -
  let ?tcs = "pre @ tc # post"
  let ?rest = "approvals_for C (mcp_headers mcp) pre @ approvals_for C (mcp_headers mcp) post"
  let ?line = "''Error approving tool_call '' @ tc_id tc @ '': '' @ e"
  have ne: "?tcs \<noteq> []" by simp
  have r: "approvals_for C (mcp_headers mcp) ?tcs = ?rest"
    by (simp add: approvals_for_append approvals_for_raises [OF assms(6)])
  have lm: "?line \<in> set (main_for_lines C ?tcs)"
    by (rule main_for_lines_error [OF _ assms(5,6)]) simp
  have lc: "?line \<in> set (chat_for_lines C ?tcs)"
    by (rule chat_for_lines_error [OF _ assms(5,6)]) simp
  note m = main_iteration_approvals [OF assms(1-4) ne, of mcp]
  note c = chat_iteration_approvals [OF assms(1-4) ne, of mcp]
  have pm: "Print ?line \<in> set (snd (snd (main_iteration C mcp thread_id run0 s)))"
    using lm unfolding m r Let_def
    by (auto split: prod.splits sum.splits)
  have pc: "Print ?line \<in> set (snd (snd (chat_iteration C mcp thread_id run0 s)))"
    using lc unfolding c r Let_def
    by (auto split: prod.splits sum.splits)
  have sm: "submissions (snd (snd (main_iteration C mcp thread_id run0 s))) =
           submissions (snd s) @ (if ?rest = [] then [] else [?rest])"
    using main_iteration_submissions [OF assms(1-4) ne, of mcp] unfolding r .
  have sc: "submissions (snd (snd (chat_iteration C mcp thread_id run0 s))) =
           submissions (snd s) @ (if ?rest = [] then [] else [?rest])"
    using chat_iteration_submissions [OF assms(1-4) ne, of mcp] unfolding r .
  have xm: "?rest \<noteq> [] \<and> fst (submit_tool_outputs C thread_id (run_id run) ?rest w2) = Inl x"
    if "fst (main_iteration C mcp thread_id run0 s) = Inl x" for x
    using that unfolding m r Let_def
    by (auto split: prod.splits sum.splits if_splits)
  have xc: "?rest \<noteq> [] \<and> fst (submit_tool_outputs C thread_id (run_id run) ?rest w2) = Inl x"
    if "fst (chat_iteration C mcp thread_id run0 s) = Inl x" for x
    using that unfolding c r Let_def
    by (auto split: prod.splits sum.splits if_splits)
  from pm pc sm sc xm xc show ?thesis by blast
qed

theorem approval_failure_does_not_abort_batch_witness:
  "main_iteration
      (scripted_client [run_with ''requires_action''
         (SubmitToolApprovalAction
            [RequiredMcpToolCall ''call_1'', RequiredMcpToolCall ''bad'', RequiredMcpToolCall ''call_3''])])
      (example_tool []) ''thread_1'' (run_with ''queued'' NoAction) (0, []) =
     (Inr (Continue (run_with ''requires_action''
         (SubmitToolApprovalAction
            [RequiredMcpToolCall ''call_1'', RequiredMcpToolCall ''bad'', RequiredMcpToolCall ''call_3'']))),
      (Suc 0,
       [Sleep 1, RunsGet ''thread_1'' ''run_1'', Print ''Approving tool call: call_1'',
        Print ''Approving tool call: bad'', Print ''Error approving tool_call bad: boom'',
        Print ''Approving tool call: call_3'', Print ''tool_approvals: [call_1, call_3]'',
        SubmitToolOutputs ''thread_1'' ''run_1''
          [\<lparr>tool_call_id = ''call_1'', approve = True, headers = []\<rparr>,
           \<lparr>tool_call_id = ''call_3'', approve = True, headers = []\<rparr>],
        Print ''Current run status: requires_action'']))
   \<and> Print ''Error approving tool_call bad: boom'' \<in> set (snd (snd (chat_iteration
      (scripted_client [run_with ''requires_action''
         (SubmitToolApprovalAction
            [RequiredMcpToolCall ''call_1'', RequiredMcpToolCall ''bad'', RequiredMcpToolCall ''call_3''])])
      (example_tool []) ''thread_1'' (run_with ''queued'' NoAction) (0, []))))
   \<and> submissions (snd (snd (chat_iteration
      (scripted_client [run_with ''requires_action''
         (SubmitToolApprovalAction
            [RequiredMcpToolCall ''call_1'', RequiredMcpToolCall ''bad'', RequiredMcpToolCall ''call_3''])])
      (example_tool []) ''thread_1'' (run_with ''queued'' NoAction) (0, [])))) =
     [[\<lparr>tool_call_id = ''call_1'', approve = True, headers = []\<rparr>,
       \<lparr>tool_call_id = ''call_3'', approve = True, headers = []\<rparr>]]"
proof -
  let ?run = "run_with ''requires_action''
    (SubmitToolApprovalAction
       [RequiredMcpToolCall ''call_1'', RequiredMcpToolCall ''bad'', RequiredMcpToolCall ''call_3''])"
  let ?C = "scripted_client [?run]"
  have h: "sleep ?C 1 (fst (0::nat, [])) = (Inr (), 0)"
    "runs_get ?C ''thread_1'' (run_id (run_with ''queued'' NoAction)) 0 = (Inr ?run, Suc 0)"
    "status ?run = ''requires_action''"
    "required_action ?run =
       SubmitToolApprovalAction
         ([RequiredMcpToolCall ''call_1''] @ RequiredMcpToolCall ''bad'' # [RequiredMcpToolCall ''call_3''])"
    "is_RequiredMcpToolCall (RequiredMcpToolCall ''bad'')"
    "ToolApproval_raises ?C (RequiredMcpToolCall ''bad'') = Some ''boom''"
    by (simp_all add: run_with_def scripted_client_def)
  have v: "approvals_for ?C (mcp_headers (example_tool [])) [RequiredMcpToolCall ''call_1''] =
             [\<lparr>tool_call_id = ''call_1'', approve = True, headers = []\<rparr>]"
    "approvals_for ?C (mcp_headers (example_tool [])) [RequiredMcpToolCall ''call_3''] =
             [\<lparr>tool_call_id = ''call_3'', approve = True, headers = []\<rparr>]"
    by (simp_all add: approvals_for_def approvable_def approval_def example_tool_def scripted_client_def)
  have m: "main_iteration ?C (example_tool []) ''thread_1'' (run_with ''queued'' NoAction) (0, []) =
     (Inr (Continue ?run),
      (Suc 0,
       [Sleep 1, RunsGet ''thread_1'' ''run_1'', Print ''Approving tool call: call_1'',
        Print ''Approving tool call: bad'', Print ''Error approving tool_call bad: boom'',
        Print ''Approving tool call: call_3'', Print ''tool_approvals: [call_1, call_3]'',
        SubmitToolOutputs ''thread_1'' ''run_1''
          [\<lparr>tool_call_id = ''call_1'', approve = True, headers = []\<rparr>,
           \<lparr>tool_call_id = ''call_3'', approve = True, headers = []\<rparr>],
        Print ''Current run status: requires_action'']))"
    by (simp add: main_iteration_def main_handle_approvals_def bindE_def call_def print_def
          return_def Let_def scripted_client_def run_with_def example_tool_def)
  from approval_failure_does_not_abort_batch [OF h, of "example_tool []"]
  have "Print (''Error approving tool_call '' @ tc_id (RequiredMcpToolCall ''bad'') @ '': '' @ ''boom'')
           \<in> set (snd (snd (chat_iteration ?C (example_tool []) ''thread_1'' (run_with ''queued'' NoAction) (0, []))))"
    and "submissions (snd (snd (chat_iteration ?C (example_tool []) ''thread_1'' (run_with ''queued'' NoAction) (0, [])))) =
           submissions (snd (0::nat, [])) @
           (if approvals_for ?C (mcp_headers (example_tool [])) [RequiredMcpToolCall ''call_1''] @
               approvals_for ?C (mcp_headers (example_tool [])) [RequiredMcpToolCall ''call_3''] = []
            then []
            else [approvals_for ?C (mcp_headers (example_tool [])) [RequiredMcpToolCall ''call_1''] @
                  approvals_for ?C (mcp_headers (example_tool [])) [RequiredMcpToolCall ''call_3'']])"
    by blast+
  with m show ?thesis
    by (simp add: v)
qed

section \<open>After the loop\<close>

lemma drives_run_Print: "\<forall>ev \<in> set (map Print ls). \<not> drives_run ev"
  by (induction ls) simp_all

lemma main_report_failed:
  assumes "status run = ''failed''"
  shows "\<exists>r w' evs.
     main_report C thread_id run s =
       (r, (w', snd s @ [Print ''Run completed with status: failed'',
                         Print (''Run failed: '' @ last_error run)] @ evs))
     \<and> (\<forall>ev \<in> set evs. \<not> drives_run ev)"
proof -
  let ?p = "[Print ''Run completed with status: failed'',
             Print (''Run failed: '' @ last_error run)]"
  obtain r1 w1 where l1: "run_steps_list C thread_id (run_id run) (fst s) = (r1, w1)"
    by (cases "run_steps_list C thread_id (run_id run) (fst s)")
  show ?thesis
  proof (cases r1)
    case (Inl e)
    with assms l1 have "main_report C thread_id run s =
        (Inl e, (w1, snd s @ ?p @ [RunStepsList thread_id (run_id run)]))"
      by (simp add: main_report_def bindE_def print_def call_def)
    moreover have "\<forall>ev \<in> set [RunStepsList thread_id (run_id run)]. \<not> drives_run ev"
      by simp
    ultimately show ?thesis by blast
  next
    case (Inr run_steps)
    obtain r2 w2 where l2: "messages_list C thread_id w1 = (r2, w2)"
      by (cases "messages_list C thread_id w1")
    show ?thesis
    proof (cases r2)
      case (Inl e)
      with assms l1 l2 Inr have "main_report C thread_id run s =
          (Inl e, (w2, snd s @ ?p @ (RunStepsList thread_id (run_id run) #
                     map Print (concat (map step_lines run_steps)) @ [MessagesList thread_id])))"
        by (simp add: main_report_def bindE_def print_def prints_def call_def)
      moreover have "\<forall>ev \<in> set (RunStepsList thread_id (run_id run) #
                     map Print (concat (map step_lines run_steps)) @ [MessagesList thread_id]). \<not> drives_run ev"
        using drives_run_Print [of "concat (map step_lines run_steps)"] by auto
      ultimately show ?thesis by blast
    next
      case (Inr messages)
      let ?evs = "RunStepsList thread_id (run_id run) #
                     map Print (concat (map step_lines run_steps)) @
                     [MessagesList thread_id, Print (newline @ ''Conversation:''),
                      Print (replicate 50 CHR ''-'')] @
                     map Print (concat (map message_lines messages))"
      from assms l1 l2 Inr \<open>r1 = Inr run_steps\<close> have "main_report C thread_id run s =
          (Inr (), (w2, snd s @ ?p @ ?evs))"
        by (simp add: main_report_def bindE_def print_def prints_def call_def)
      moreover have "\<forall>ev \<in> set ?evs. \<not> drives_run ev"
        using drives_run_Print [of "concat (map step_lines run_steps)"]
          drives_run_Print [of "concat (map message_lines messages)"] by auto
      ultimately show ?thesis by blast
    qed
  qed
qed

lemma first_assistant_text_find:
  "first_assistant_text msgs =
     (case find (\<lambda>m. role m = ''assistant'' \<and> text_messages m \<noteq> []) msgs of
        None \<Rightarrow> ''No response received from agent.''
      | Some m \<Rightarrow> last (text_messages m))"
  by (induction msgs) simp_all

text \<open>
  C5. A run whose status is \<^verbatim>\<open>failed\<close> ends both loops. \<^verbatim>\<open>main.py\<close> then
  prints the status line and the line \<^verbatim>\<open>Run failed:\<close> followed by the text of
  \<^verbatim>\<open>run.last_error\<close>, unchanged, and after it only prints and lists run steps and
  messages: no run is created, fetched or resumed. \<^verbatim>\<open>send_message\<close> returns
  \<^verbatim>\<open>Error: Run failed -\<close> followed by that text, with no further call or line.
\<close>

theorem failed_run_is_reported_not_retried:
  assumes "status run = ''failed''"
  shows "main_poll_loop fuel C mcp thread_id run s = Some (Inr run, s)
       \<and> chat_poll_loop fuel C mcp thread_id run s = Some (Inr run, s)
       \<and> (\<exists>r w' evs.
             main_report C thread_id run s =
               (r, (w', snd s @ [Print ''Run completed with status: failed'',
                                 Print (''Run failed: '' @ last_error run)] @ evs))
             \<and> (\<forall>ev \<in> set evs. \<not> drives_run ev))
       \<and> send_message_result C thread_id run s =
           (Inr (''Error: Run failed - '' @ last_error run), s)
       \<and> (main_setup C env tool0 s0 = (Inr (thread_id, mcp, run0), s1)
            \<and> main_poll_loop fuel C mcp thread_id run0 s1 = Some (Inr run, s) \<longrightarrow>
            main_with_body fuel C env tool0 s0 = Some (main_report C thread_id run s))
       \<and> (send_message_create C h content s0 = (Inr (thread_id, mcp, run0), s1)
            \<and> chat_poll_loop fuel C mcp thread_id run0 s1 = Some (Inr run, s) \<longrightarrow>
            send_message fuel C h content s0 =
              Some (Inr (''Error: Run failed - '' @ last_error run), s))"
proof -
  from assms have n: "status run \<notin> set active_statuses"
    by (simp add: active_statuses_def)
  have r: "send_message_result C thread_id run s =
      (Inr (''Error: Run failed - '' @ last_error run), s)"
    using assms by (simp add: send_message_result_def return_def)
  have b: "main_with_body fuel C env tool0 s0 = Some (main_report C thread_id run s)"
    if "main_setup C env tool0 s0 = (Inr (thread_id, mcp, run0), s1)"
      "main_poll_loop fuel C mcp thread_id run0 s1 = Some (Inr run, s)"
    using that by (simp add: main_with_body_def)
  have c: "send_message fuel C h content s0 =
      Some (Inr (''Error: Run failed - '' @ last_error run), s)"
    if "send_message_create C h content s0 = (Inr (thread_id, mcp, run0), s1)"
      "chat_poll_loop fuel C mcp thread_id run0 s1 = Some (Inr run, s)"
    using that r by (simp add: send_message_def send_message_try_def)
  from main_poll_loop_ended [OF n] chat_poll_loop_ended [OF n]
    main_report_failed [OF assms, of C thread_id s] r b c
  show ?thesis by blast
qed

theorem failed_run_is_reported_not_retried_witness:
  "status run_failed = ''failed''
   \<and> main_poll_loop 5 (scripted_client []) (example_tool []) ''thread_1'' run_failed (0, []) =
       Some (Inr run_failed, (0, []))
   \<and> send_message_result (scripted_client []) ''thread_1'' run_failed (0, []) =
       (Inr ''Error: Run failed - rate_limit_exceeded'', (0, []))
   \<and> send_message 5 (scripted_client [run_failed]) (example_handler []) ''hola'' (0, []) =
       Some (Inr ''Error: Run failed - rate_limit_exceeded'',
             (Suc 0, [MessagesCreate ''thread_1'' ''user'' ''hola'',
                      RunsCreate ''thread_1'' ''agent_1'' (example_tool []),
                      Sleep 1, RunsGet ''thread_1'' ''run_1'']))"
proof -
  have h: "status run_failed = ''failed''"
    by (simp add: run_failed_def run_with_def)
  have e: "last_error run_failed = ''rate_limit_exceeded''"
    by (simp add: run_failed_def run_with_def)
  have c: "send_message_create (scripted_client [run_failed]) (example_handler []) ''hola'' (0, []) =
      (Inr (''thread_1'', example_tool [], run_with ''queued'' NoAction),
       (0, [MessagesCreate ''thread_1'' ''user'' ''hola'',
            RunsCreate ''thread_1'' ''agent_1'' (example_tool [])]))"
    by (simp add: send_message_create_def attr_def bindE_def call_def return_def
          example_handler_def scripted_client_def)
  have l: "chat_poll_loop 5 (scripted_client [run_failed]) (example_tool []) ''thread_1''
      (run_with ''queued'' NoAction)
      (0, [MessagesCreate ''thread_1'' ''user'' ''hola'',
           RunsCreate ''thread_1'' ''agent_1'' (example_tool [])]) =
      Some (Inr run_failed,
            (Suc 0, [MessagesCreate ''thread_1'' ''user'' ''hola'',
                     RunsCreate ''thread_1'' ''agent_1'' (example_tool []),
                     Sleep 1, RunsGet ''thread_1'' ''run_1'']))"
    by (simp add: numeral_nat chat_iteration_def bindE_def call_def return_def
          scripted_client_def run_failed_def run_with_def active_statuses_def)
  from failed_run_is_reported_not_retried
    [where run = run_failed and fuel = 5 and C = "scripted_client []" and mcp = "example_tool []"
       and thread_id = "''thread_1''" and s = "(0, [])", OF h]
  have 1: "main_poll_loop 5 (scripted_client []) (example_tool []) ''thread_1'' run_failed (0, []) =
       Some (Inr run_failed, (0, []))"
    and 2: "send_message_result (scripted_client []) ''thread_1'' run_failed (0, []) =
           (Inr (''Error: Run failed - '' @ last_error run_failed), (0, []))"
    by blast+
  from failed_run_is_reported_not_retried
    [where run = run_failed and fuel = 5 and C = "scripted_client [run_failed]"
       and mcp = "example_tool []" and thread_id = "''thread_1''" and h = "example_handler []"
       and content = "''hola''" and ?s0.0 = "(0, [])" and ?run0.0 = "run_with ''queued'' NoAction"
       and ?s1.0 = "(0, [MessagesCreate ''thread_1'' ''user'' ''hola'',
           RunsCreate ''thread_1'' ''agent_1'' (example_tool [])])"
       and s = "(Suc 0, [MessagesCreate ''thread_1'' ''user'' ''hola'',
                     RunsCreate ''thread_1'' ''agent_1'' (example_tool []),
                     Sleep 1, RunsGet ''thread_1'' ''run_1''])", OF h] c l
  have 3: "send_message 5 (scripted_client [run_failed]) (example_handler []) ''hola'' (0, []) =
       Some (Inr (''Error: Run failed - '' @ last_error run_failed),
             (Suc 0, [MessagesCreate ''thread_1'' ''user'' ''hola'',
                      RunsCreate ''thread_1'' ''agent_1'' (example_tool []),
                      Sleep 1, RunsGet ''thread_1'' ''run_1'']))"
    by blast
  from h 1 2 3 show ?thesis
    by (simp add: e)
qed

text \<open>
  C10. When the loop of \<^verbatim>\<open>send_message\<close> has ended with a run whose status is not
  \<^verbatim>\<open>failed\<close>, and the listing of the messages of the thread returns, the result is
  the last text of the first listed message whose role is \<^verbatim>\<open>assistant\<close> and which
  has a text, and the fixed sentence when no message is such.
\<close>

theorem send_message_returns_first_assistant_text:
  assumes "status run \<noteq> ''failed''"
    and "messages_list C thread_id (fst s) = (Inr msgs, w')"
  shows "send_message_result C thread_id run s =
           (Inr (case find (\<lambda>m. role m = ''assistant'' \<and> text_messages m \<noteq> []) msgs of
                   None \<Rightarrow> ''No response received from agent.''
                 | Some m \<Rightarrow> last (text_messages m)),
            (w', snd s @ [MessagesList thread_id]))
       \<and> (send_message_create C h content s0 = (Inr (thread_id, mcp, run0), s1)
            \<and> chat_poll_loop fuel C mcp thread_id run0 s1 = Some (Inr run, s) \<longrightarrow>
            send_message fuel C h content s0 =
              Some (Inr (case find (\<lambda>m. role m = ''assistant'' \<and> text_messages m \<noteq> []) msgs of
                           None \<Rightarrow> ''No response received from agent.''
                         | Some m \<Rightarrow> last (text_messages m)),
                    (w', snd s @ [MessagesList thread_id])))"
proof -
  have r: "send_message_result C thread_id run s =
           (Inr (case find (\<lambda>m. role m = ''assistant'' \<and> text_messages m \<noteq> []) msgs of
                   None \<Rightarrow> ''No response received from agent.''
                 | Some m \<Rightarrow> last (text_messages m)),
            (w', snd s @ [MessagesList thread_id]))"
    using assms
    by (simp add: send_message_result_def bindE_def call_def return_def first_assistant_text_find)
  have c: "send_message fuel C h content s0 =
      Some (Inr (case find (\<lambda>m. role m = ''assistant'' \<and> text_messages m \<noteq> []) msgs of
                   None \<Rightarrow> ''No response received from agent.''
                 | Some m \<Rightarrow> last (text_messages m)),
            (w', snd s @ [MessagesList thread_id]))"
    if "send_message_create C h content s0 = (Inr (thread_id, mcp, run0), s1)"
      "chat_poll_loop fuel C mcp thread_id run0 s1 = Some (Inr run, s)"
    using that r by (simp add: send_message_def send_message_try_def)
  from r c show ?thesis by blast
qed

theorem send_message_returns_first_assistant_text_witness:
  "status (run_with ''completed'' NoAction) \<noteq> ''failed''
   \<and> send_message_result (scripted_client []) ''thread_1'' (run_with ''completed'' NoAction) (0, []) =
       (Inr ''21 grados'', (0, [MessagesList ''thread_1'']))
   \<and> send_message_result
        ((scripted_client [])\<lparr>messages_list := (\<lambda>t w. (Inr [\<lparr>role = ''user'', text_messages = [''hola'']\<rparr>], w))\<rparr>)
        ''thread_1'' (run_with ''completed'' NoAction) (0, []) =
       (Inr ''No response received from agent.'', (0, [MessagesList ''thread_1'']))"
proof -
  let ?msgs = "[\<lparr>role = ''user'', text_messages = [''hola'']\<rparr>,
              \<lparr>role = ''assistant'', text_messages = []\<rparr>,
              \<lparr>role = ''assistant'', text_messages = [''uno'', ''21 grados'']\<rparr>]"
  let ?C = "(scripted_client [])\<lparr>messages_list := (\<lambda>t w. (Inr [\<lparr>role = ''user'', text_messages = [''hola'']\<rparr>], w))\<rparr>"
  have h: "status (run_with ''completed'' NoAction) \<noteq> ''failed''"
    "messages_list (scripted_client []) ''thread_1'' (fst (0::nat, [])) = (Inr ?msgs, 0)"
    "messages_list ?C ''thread_1'' (fst (0::nat, [])) = (Inr [\<lparr>role = ''user'', text_messages = [''hola'']\<rparr>], 0)"
    by (simp_all add: run_with_def scripted_client_def)
  from send_message_returns_first_assistant_text [OF h(1,2)]
    send_message_returns_first_assistant_text [OF h(1,3)]
  have "send_message_result (scripted_client []) ''thread_1'' (run_with ''completed'' NoAction) (0, []) =
       (Inr (case find (\<lambda>m. role m = ''assistant'' \<and> text_messages m \<noteq> []) ?msgs of
                   None \<Rightarrow> ''No response received from agent.''
                 | Some m \<Rightarrow> last (text_messages m)), (0, snd (0::nat, []) @ [MessagesList ''thread_1'']))"
    and "send_message_result ?C ''thread_1'' (run_with ''completed'' NoAction) (0, []) =
       (Inr (case find (\<lambda>m. role m = ''assistant'' \<and> text_messages m \<noteq> [])
                    [\<lparr>role = ''user'', text_messages = [''hola'']\<rparr>] of
                   None \<Rightarrow> ''No response received from agent.''
                 | Some m \<Rightarrow> last (text_messages m)), (0, snd (0::nat, []) @ [MessagesList ''thread_1'']))"
    by blast+
  with h(1) show ?thesis
    by simp
qed

section \<open>Exceptions in \<^verbatim>\<open>send_message\<close>\<close>

text \<open>
  C6, as stated, fails: the clause of \<^verbatim>\<open>send_message\<close> is
  \<^verbatim>\<open>except Exception\<close>, and the cancellation of the task, raised at the awaited
  sleep of the loop, is not an \<^verbatim>\<open>Exception\<close>. It passes to the caller.
\<close>

theorem cancellation_passes_send_message:
  "send_message 3 (cancelled_client []) (example_handler []) ''hola'' (0, []) =
     Some (Inl (BaseExceptionOnly ''CancelledError''),
           (0, [MessagesCreate ''thread_1'' ''user'' ''hola'',
                RunsCreate ''thread_1'' ''agent_1'' (example_tool []), Sleep 1]))"
  by (simp add: numeral_nat send_message_def send_message_try_def send_message_create_def
        attr_def chat_iteration_def bindE_def call_def return_def cancelled_client_def
        scripted_client_def example_handler_def run_with_def active_statuses_def)

text \<open>
  C6, amended. Every exception of class \<^verbatim>\<open>Exception\<close> that the body of
  \<^verbatim>\<open>send_message\<close> raises (a failing call of the service in or around the loop, a
  field of the handler that is still \<^verbatim>\<open>None\<close>) is caught and returned as the text
  \<^verbatim>\<open>Error processing message:\<close> followed by the text of the exception. What
  \<^verbatim>\<open>send_message\<close> lets pass to its caller is never of class \<^verbatim>\<open>Exception\<close>, and
  is what its body raised.
\<close>

theorem send_message_returns_exceptions_as_text:
  "(send_message_try fuel C h content s = Some (Inl (Exception m), s') \<longrightarrow>
      send_message fuel C h content s = Some (Inr (''Error processing message: '' @ m), s'))
   \<and> (send_message fuel C h content s = Some (Inl e, s') \<longrightarrow>
        \<not> is_Exception e \<and> send_message_try fuel C h content s = Some (Inl e, s'))
   \<and> (agents_client h = None \<longrightarrow>
        send_message fuel C h content s =
          Some (Inr (''Error processing message: '' @ squote ''NoneType'' @
                     '' object has no attribute '' @ squote ''messages''), s))
   \<and> (agents_client h \<noteq> None \<and> thread h = Some thread_id
        \<and> messages_create C thread_id ''user'' content (fst s) = (Inl (Exception m), w') \<longrightarrow>
        send_message fuel C h content s =
          Some (Inr (''Error processing message: '' @ m),
                (w', snd s @ [MessagesCreate thread_id ''user'' content])))"
proof -
  have a: "send_message fuel C h content s = Some (Inr (''Error processing message: '' @ m), s')"
    if "send_message_try fuel C h content s = Some (Inl (Exception m), s')"
    using that by (simp add: send_message_def)
  have b: "\<not> is_Exception e \<and> send_message_try fuel C h content s = Some (Inl e, s')"
    if "send_message fuel C h content s = Some (Inl e, s')"
  proof -
    from that obtain r where t: "send_message_try fuel C h content s = Some (r, s')"
      and r: "send_message_except r = Inl e"
      by (auto simp: send_message_def split: option.splits prod.splits)
    from r have "r = Inl e \<and> \<not> is_Exception e"
      by (cases r rule: send_message_except.cases) auto
    with t show ?thesis by simp
  qed
  have c: "send_message fuel C h content s =
          Some (Inr (''Error processing message: '' @ squote ''NoneType'' @
                     '' object has no attribute '' @ squote ''messages''), s)"
    if "agents_client h = None"
    using that
    by (simp add: send_message_def send_message_try_def send_message_create_def attr_def
          bindE_def raise_def none_attribute_def)
  have d: "send_message fuel C h content s =
          Some (Inr (''Error processing message: '' @ m),
                (w', snd s @ [MessagesCreate thread_id ''user'' content]))"
    if "agents_client h \<noteq> None" "thread h = Some thread_id"
      "messages_create C thread_id ''user'' content (fst s) = (Inl (Exception m), w')"
    using that
    by (auto simp: send_message_def send_message_try_def send_message_create_def attr_def
          bindE_def return_def call_def)
  from a b c d show ?thesis by blast
qed

theorem send_message_returns_exceptions_as_text_witness:
  "agents_client handler_init = None
   \<and> send_message 3 (scripted_client []) handler_init ''hola'' (0, []) =
       Some (Inr (''Error processing message: '' @ squote ''NoneType'' @
                  '' object has no attribute '' @ squote ''messages''), (0, []))"
proof -
  have h: "agents_client handler_init = None"
    by (simp add: handler_init_def)
  from send_message_returns_exceptions_as_text
    [where h = handler_init and fuel = 3 and C = "scripted_client []" and content = "''hola''"
       and s = "(0, [])" and s' = "(0, [])" and m = "[]" and e = "Exception []"
       and thread_id = "[]" and w' = 0] h
  have "send_message 3 (scripted_client []) handler_init ''hola'' (0, []) =
       Some (Inr (''Error processing message: '' @ squote ''NoneType'' @
                  '' object has no attribute '' @ squote ''messages''), (0, []))"
    by blast
  with h show ?thesis by simp
qed

section \<open>The runs a script creates\<close>

lemma runs_created_append: "runs_created (xs @ ys) = runs_created xs @ runs_created ys"
  by (induction xs rule: runs_created.induct) simp_all

lemma runs_created_Print: "runs_created (map Print ls) = []"
  by (induction ls) simp_all

lemma main_handle_approvals_runs_created:
  assumes "isinstance_SubmitToolApprovalAction (required_action run)"
  shows "runs_created (snd (snd (main_handle_approvals C mcp thread_id run s))) = runs_created (snd s)"
proof -
  from assms obtain tcs where a: "required_action run = SubmitToolApprovalAction tcs"
    by (auto simp: isinstance_SubmitToolApprovalAction_iff)
  show ?thesis
  proof (cases "tcs = []")
    case True
    with a show ?thesis
      by (simp add: main_handle_approvals_empty runs_created_append split: prod.splits)
  next
    case False
    with a show ?thesis
      by (simp add: main_handle_approvals_eq Let_def runs_created_append runs_created_Print
            split: prod.splits)
  qed
qed

lemma chat_handle_approvals_runs_created:
  assumes "isinstance_SubmitToolApprovalAction (required_action run)"
  shows "runs_created (snd (snd (chat_handle_approvals C mcp thread_id run s))) = runs_created (snd s)"
proof -
  from assms obtain tcs where a: "required_action run = SubmitToolApprovalAction tcs"
    by (auto simp: isinstance_SubmitToolApprovalAction_iff)
  show ?thesis
  proof (cases "tcs = []")
    case True
    with a show ?thesis
      by (simp add: chat_handle_approvals_empty runs_created_append split: prod.splits)
  next
    case False
    with a show ?thesis
      by (simp add: chat_handle_approvals_eq Let_def runs_created_append runs_created_Print
            split: prod.splits)
  qed
qed

lemma main_iteration_runs_created:
  "runs_created (snd (snd (main_iteration C mcp thread_id run0 s))) = runs_created (snd s)"
proof -
  obtain r1 w1 where s1: "sleep C 1 (fst s) = (r1, w1)" by (cases "sleep C 1 (fst s)")
  obtain r2 w2 where s2: "runs_get C thread_id (run_id run0) w1 = (r2, w2)"
    by (cases "runs_get C thread_id (run_id run0) w1")
  show ?thesis
  proof (cases r1)
    case (Inl e)
    with s1 show ?thesis
      by (simp add: main_iteration_def bindE_def call_def runs_created_append)
  next
    case u: (Inr u)
    show ?thesis
    proof (cases r2)
      case (Inl e)
      with s1 s2 u show ?thesis
        by (simp add: main_iteration_def bindE_def call_def runs_created_append)
    next
      case (Inr run)
      let ?s2 = "(w2, snd s @ [Sleep 1, RunsGet thread_id (run_id run0)])"
      note eq = main_iteration_eq [where mcp = mcp, OF s1 [unfolded u unit_eq [of u]] s2 [unfolded Inr]]
      show ?thesis
      proof (cases "status run = ''requires_action'' \<and> isinstance_SubmitToolApprovalAction (required_action run)")
        case False
        with eq show ?thesis by (auto simp: runs_created_append)
      next
        case True
        with main_handle_approvals_runs_created [of run C mcp thread_id ?s2]
        have "runs_created (snd (snd (main_handle_approvals C mcp thread_id run ?s2))) = runs_created (snd s)"
          by (simp add: runs_created_append)
        with True eq show ?thesis
          by (auto simp: runs_created_append split: prod.splits sum.splits)
      qed
    qed
  qed
qed

lemma chat_iteration_runs_created:
  "runs_created (snd (snd (chat_iteration C mcp thread_id run0 s))) = runs_created (snd s)"
proof -
  obtain r1 w1 where s1: "sleep C 1 (fst s) = (r1, w1)" by (cases "sleep C 1 (fst s)")
  obtain r2 w2 where s2: "runs_get C thread_id (run_id run0) w1 = (r2, w2)"
    by (cases "runs_get C thread_id (run_id run0) w1")
  show ?thesis
  proof (cases r1)
    case (Inl e)
    with s1 show ?thesis
      by (simp add: chat_iteration_def bindE_def call_def runs_created_append)
  next
    case u: (Inr u)
    show ?thesis
    proof (cases r2)
      case (Inl e)
      with s1 s2 u show ?thesis
        by (simp add: chat_iteration_def bindE_def call_def runs_created_append)
    next
      case (Inr run)
      let ?s2 = "(w2, snd s @ [Sleep 1, RunsGet thread_id (run_id run0)])"
      note eq = chat_iteration_eq [where mcp = mcp, OF s1 [unfolded u unit_eq [of u]] s2 [unfolded Inr]]
      show ?thesis
      proof (cases "status run = ''requires_action'' \<and> isinstance_SubmitToolApprovalAction (required_action run)")
        case False
        with eq show ?thesis by (auto simp: runs_created_append)
      next
        case True
        with chat_handle_approvals_runs_created [of run C mcp thread_id ?s2]
        have "runs_created (snd (snd (chat_handle_approvals C mcp thread_id run ?s2))) = runs_created (snd s)"
          by (simp add: runs_created_append)
        with True eq show ?thesis
          by (auto simp: runs_created_append split: prod.splits sum.splits)
      qed
    qed
  qed
qed

lemma main_poll_loop_runs_created:
  "main_poll_loop fuel C mcp thread_id run0 s = Some (r, s') \<Longrightarrow>
     runs_created (snd s') = runs_created (snd s)"
proof (induction fuel arbitrary: run0 s)
  case 0
  then show ?case by (auto split: if_splits)
next
  case (Suc fuel)
  show ?case
  proof (cases "status run0 \<in> set active_statuses")
    case False
    with Suc.prems show ?thesis by auto
  next
    case True
    obtain c s1 where it: "main_iteration C mcp thread_id run0 s = (c, s1)"
      by (cases "main_iteration C mcp thread_id run0 s")
    with main_iteration_runs_created [of C mcp thread_id run0 s]
    have k: "runs_created (snd s1) = runs_created (snd s)" by simp
    show ?thesis
    proof (cases c)
      case (Inl e)
      with True it Suc.prems k show ?thesis by auto
    next
      case (Inr ctl)
      show ?thesis
      proof (cases ctl)
        case (Continue run1)
        with True it Inr Suc.prems
        have "main_poll_loop fuel C mcp thread_id run1 s1 = Some (r, s')" by simp
        from Suc.IH [OF this] k show ?thesis by simp
      next
        case (Break run1)
        with True it Inr Suc.prems k show ?thesis by auto
      qed
    qed
  qed
qed

lemma chat_poll_loop_runs_created:
  "chat_poll_loop fuel C mcp thread_id run0 s = Some (r, s') \<Longrightarrow>
     runs_created (snd s') = runs_created (snd s)"
proof (induction fuel arbitrary: run0 s)
  case 0
  then show ?case by (auto split: if_splits)
next
  case (Suc fuel)
  show ?case
  proof (cases "status run0 \<in> set active_statuses")
    case False
    with Suc.prems show ?thesis by auto
  next
    case True
    obtain c s1 where it: "chat_iteration C mcp thread_id run0 s = (c, s1)"
      by (cases "chat_iteration C mcp thread_id run0 s")
    with chat_iteration_runs_created [of C mcp thread_id run0 s]
    have k: "runs_created (snd s1) = runs_created (snd s)" by simp
    show ?thesis
    proof (cases c)
      case (Inl e)
      with True it Suc.prems k show ?thesis by auto
    next
      case (Inr ctl)
      show ?thesis
      proof (cases ctl)
        case (Continue run1)
        with True it Inr Suc.prems
        have "chat_poll_loop fuel C mcp thread_id run1 s1 = Some (r, s')" by simp
        from Suc.IH [OF this] k show ?thesis by simp
      next
        case (Break run1)
        with True it Inr Suc.prems k show ?thesis by auto
      qed
    qed
  qed
qed

lemma main_report_runs_created:
  "runs_created (snd (snd (main_report C thread_id run s))) = runs_created (snd s)"
  by (simp add: main_report_def bindE_def call_def print_def prints_def return_def
        runs_created_append runs_created_Print split: prod.splits sum.splits)

lemma send_message_result_runs_created:
  "runs_created (snd (snd (send_message_result C thread_id run s))) = runs_created (snd s)"
  by (simp add: send_message_result_def bindE_def call_def return_def
        runs_created_append split: prod.splits sum.splits)

lemma main_setup_runs_created:
  "main_setup C env tool s = (r, s') \<Longrightarrow>
     (runs_created (snd s') = runs_created (snd s) \<and> (\<forall>x. r \<noteq> Inr x))
     \<or> (runs_created (snd s') = runs_created (snd s) @ [set_approval_mode ''never'' tool]
         \<and> (\<forall>thread_id mcp run. r = Inr (thread_id, mcp, run) \<longrightarrow> mcp = set_approval_mode ''never'' tool))"
  by (auto simp: main_setup_def Let_def bindE_def call_def print_def return_def
        runs_created_append split: prod.splits sum.splits)

lemma send_message_create_runs_created:
  "send_message_create C h content s = (r, s') \<Longrightarrow>
     (runs_created (snd s') = runs_created (snd s) \<and> (\<forall>x. r \<noteq> Inr x))
     \<or> (\<exists>tool. mcp_tool h = Some tool \<and> runs_created (snd s') = runs_created (snd s) @ [tool])"
  by (auto simp: send_message_create_def attr_def bindE_def call_def raise_def return_def
        runs_created_append split: prod.splits sum.splits option.splits)
lemma configure_headers_token:
  "token \<noteq> [] \<Longrightarrow>
     configure_headers (Some token) (McpTool label url) s =
       ((McpTool label url)\<lparr>mcp_headers := [(''Authorization'', ''Bearer '' @ token)]\<rparr>, s)"
  by (simp add: configure_headers_def update_headers_def McpTool_def)

lemma configure_headers_no_token:
  "tok = None \<or> tok = Some [] \<Longrightarrow>
     configure_headers tok (McpTool label url) s =
       (McpTool label url,
        (fst s, snd s @ [Print ''Warning: No MCP_SERVER_TOKEN found in environment variables'']))"
  by (auto simp: configure_headers_def)

lemma configure_headers_runs_created:
  "runs_created (snd (snd (configure_headers tok tool s))) = runs_created (snd s)"
  by (simp add: configure_headers_def runs_created_append split: option.splits)

lemma main_runs_created:
  assumes "main fuel C env s = Some (r, s')"
  shows "\<exists>ms. runs_created (snd s') = runs_created (snd s) @ ms
     \<and> (\<forall>m \<in> set ms. mcp_headers m =
           mcp_headers (fst (configure_headers (env ''MCP_SERVER_TOKEN'')
             (McpTool (env_value env ''MCP_SERVER_LABEL'') (env_value env ''MCP_SERVER_URL'')) s)))"
proof (cases "missing_vars env = []")
  case False
  with assms have "s' = s" by (simp add: main_def)
  then show ?thesis by simp
next
  case True
  let ?cfg = "configure_headers (env ''MCP_SERVER_TOKEN'')
             (McpTool (env_value env ''MCP_SERVER_LABEL'') (env_value env ''MCP_SERVER_URL'')) s"
  obtain tool0 s0 where cfg: "?cfg = (tool0, s0)" by (cases ?cfg)
  with configure_headers_runs_created [of "env ''MCP_SERVER_TOKEN''"
      "McpTool (env_value env ''MCP_SERVER_LABEL'') (env_value env ''MCP_SERVER_URL'')" s]
  have k0: "runs_created (snd s0) = runs_created (snd s)" by simp
  from assms True cfg obtain s3 where
    body: "main_with_body fuel C env tool0 s0 = Some (r, s3)"
    and s': "s' = (fst s3, snd s3 @ [ClientClose])"
    by (auto simp: main_def split: option.splits prod.splits)
  from s' have k3: "runs_created (snd s') = runs_created (snd s3)"
    by (simp add: runs_created_append)
  obtain r1 s1 where stp: "main_setup C env tool0 s0 = (r1, s1)"
    by (cases "main_setup C env tool0 s0")
  have "\<exists>ms. runs_created (snd s3) = runs_created (snd s0) @ ms
     \<and> (\<forall>m \<in> set ms. mcp_headers m = mcp_headers tool0)"
  proof (cases r1)
    case (Inl e)
    with body stp have "s3 = s1" by (simp add: main_with_body_def)
    with main_setup_runs_created [OF stp] Inl show ?thesis
      by (auto simp: set_approval_mode_def)
  next
    case (Inr x)
    obtain thread_id mcp run where x: "x = (thread_id, mcp, run)" by (cases x)
    from main_setup_runs_created [OF stp] Inr x
    have k1: "runs_created (snd s1) = runs_created (snd s0) @ [set_approval_mode ''never'' tool0]"
      by auto
    obtain rl sl where loop: "main_poll_loop fuel C mcp thread_id run s1 = Some (rl, sl)"
      using body stp Inr x
      by (auto simp: main_with_body_def split: option.splits)
    from main_poll_loop_runs_created [OF loop]
    have kl: "runs_created (snd sl) = runs_created (snd s1)" .
    have "runs_created (snd s3) = runs_created (snd sl)"
    proof (cases rl)
      case (Inl e)
      with body stp Inr x loop show ?thesis by (simp add: main_with_body_def)
    next
      case r: (Inr run')
      with body stp Inr x loop have "main_report C thread_id run' sl = (r, s3)"
        by (simp add: main_with_body_def)
      with main_report_runs_created [of C thread_id run' sl] show ?thesis by simp
    qed
    with kl k1 show ?thesis
      by (auto simp: set_approval_mode_def)
  qed
  with k0 k3 cfg show ?thesis by simp
qed

lemma send_message_runs_created:
  assumes "send_message fuel C h content s = Some (r, s')"
  shows "\<exists>ms. runs_created (snd s') = runs_created (snd s) @ ms
     \<and> (\<forall>m \<in> set ms. mcp_tool h = Some m)"
proof -
  from assms obtain r0 where body: "send_message_try fuel C h content s = Some (r0, s')"
    by (auto simp: send_message_def split: option.splits prod.splits)
  obtain r1 s1 where create: "send_message_create C h content s = (r1, s1)"
    by (cases "send_message_create C h content s")
  note k1 = send_message_create_runs_created [OF create]
  show ?thesis
  proof (cases r1)
    case (Inl e)
    with body create have "s' = s1" by (simp add: send_message_try_def)
    with k1 Inl show ?thesis by auto
  next
    case (Inr x)
    obtain thread_id mcp run where x: "x = (thread_id, mcp, run)" by (cases x)
    from k1 Inr obtain tool where t: "mcp_tool h = Some tool"
      "runs_created (snd s1) = runs_created (snd s) @ [tool]" by auto
    obtain rl sl where loop: "chat_poll_loop fuel C mcp thread_id run s1 = Some (rl, sl)"
      using body create Inr x
      by (auto simp: send_message_try_def split: option.splits)
    from chat_poll_loop_runs_created [OF loop]
    have kl: "runs_created (snd sl) = runs_created (snd s1)" .
    have "runs_created (snd s') = runs_created (snd sl)"
    proof (cases rl)
      case (Inl e)
      with body create Inr x loop show ?thesis by (simp add: send_message_try_def)
    next
      case r: (Inr run')
      with body create Inr x loop have "send_message_result C thread_id run' sl = (r0, s')"
        by (simp add: send_message_try_def)
      with send_message_result_runs_created [of C thread_id run' sl] show ?thesis by simp
    qed
    with kl t show ?thesis by auto
  qed
qed

lemma initialize_runs_created:
  assumes "initialize C env h s = ((Inr True, h'), s')"
  shows "runs_created (snd s') = runs_created (snd s)
     \<and> (\<exists>t. mcp_tool h' = Some t \<and> mcp_headers t =
           mcp_headers (fst (configure_headers (env ''MCP_SERVER_TOKEN'')
             (McpTool (env_value env ''MCP_SERVER_LABEL'') (env_value env ''MCP_SERVER_URL'')) s)))"
proof -
  let ?cfg = "configure_headers (env ''MCP_SERVER_TOKEN'')
             (McpTool (env_value env ''MCP_SERVER_LABEL'') (env_value env ''MCP_SERVER_URL'')) s"
  obtain tool0 s0 where cfg: "?cfg = (tool0, s0)" by (cases ?cfg)
  with configure_headers_runs_created [of "env ''MCP_SERVER_TOKEN''"
      "McpTool (env_value env ''MCP_SERVER_LABEL'') (env_value env ''MCP_SERVER_URL'')" s]
  have k0: "runs_created (snd s0) = runs_created (snd s)" by simp
  have e: "initialize_except e hh ss = ((Inr True, h'), s') \<longleftrightarrow> False" for e hh ss
    by (cases e) simp_all
  from assms have m: "missing_vars env = []"
    by (cases "missing_vars env = []") (simp_all add: initialize_def e)
  from assms m cfg k0 show ?thesis
    by (auto simp: initialize_def Let_def call_def e runs_created_append set_approval_mode_def
          split: prod.splits sum.splits)
qed

section \<open>The authorization header\<close>

text \<open>
  C8, as stated, fails for a token that is set to the empty string: the test
  \<^verbatim>\<open>if mcp_server_token\<close> fails as for an absent token, the warning is printed, and the
  run is created with a tool that has no header.
\<close>

theorem empty_token_sets_no_header:
  "example_env (Some []) ''MCP_SERVER_TOKEN'' = Some []
   \<and> configure_headers (example_env (Some []) ''MCP_SERVER_TOKEN'')
        (McpTool ''home'' ''https://mcp'') (0::nat, []) =
       (\<lparr>server_label = ''home'', server_url = ''https://mcp'', mcp_headers = [],
         require_approval = ''always''\<rparr>,
        (0, [Print ''Warning: No MCP_SERVER_TOKEN found in environment variables'']))
   \<and> map_option (\<lambda>(r, s). runs_created (snd s))
        (main 2 (scripted_client []) (example_env (Some [])) (0, [])) =
       Some [\<lparr>server_label = ''home'', server_url = ''https://mcp'', mcp_headers = [],
              require_approval = ''never''\<rparr>]"
proof -
  have m: "missing_vars (example_env (Some [])) = []"
    by (simp add: missing_vars_def required_vars_def truthy_def example_env_def)
  have v: "env_value (example_env (Some [])) ''MCP_SERVER_LABEL'' = ''home''"
    "env_value (example_env (Some [])) ''MCP_SERVER_URL'' = ''https://mcp''"
    "example_env (Some []) ''MCP_SERVER_TOKEN'' = Some []"
    by (simp_all add: env_value_def example_env_def)
  have c: "configure_headers (Some []) (McpTool ''home'' ''https://mcp'') (0::nat, []) =
       (\<lparr>server_label = ''home'', server_url = ''https://mcp'', mcp_headers = [],
         require_approval = ''always''\<rparr>,
        (0, [Print ''Warning: No MCP_SERVER_TOKEN found in environment variables'']))"
    by (simp add: configure_headers_def McpTool_def)
  have "map_option (\<lambda>(r, s). runs_created (snd s))
        (main 2 (scripted_client []) (example_env (Some [])) (0, [])) =
       Some [\<lparr>server_label = ''home'', server_url = ''https://mcp'', mcp_headers = [],
              require_approval = ''never''\<rparr>]"
    by (simp add: main_def m v c main_with_body_def main_setup_def Let_def bindE_def call_def
          print_def prints_def return_def numeral_nat main_iteration_def main_report_def
          set_approval_mode_def scripted_client_def run_with_def active_statuses_def
          runs_created_append runs_created_Print)
  with v(3) c show ?thesis by simp
qed

text \<open>
  C8, amended. When \<^verbatim>\<open>MCP_SERVER_TOKEN\<close> is set to a non-empty value, the tool gets
  the header \<^verbatim>\<open>Authorization\<close> with \<^verbatim>\<open>Bearer\<close> and the token, nothing is
  printed, and every run that \<^verbatim>\<open>main.py\<close> creates, and the tool that
  \<^verbatim>\<open>initialize\<close> leaves in the handler without creating any run, carry exactly that
  header. When the variable is absent or empty, the warning is printed, the tool has no
  header, and the scripts go on: \<^verbatim>\<open>main.py\<close> enters its \<^verbatim>\<open>with\<close> block and
  \<^verbatim>\<open>initialize\<close> succeeds when the service answers; the runs created carry no header.
  The runs that \<^verbatim>\<open>send_message\<close> creates carry the tool of the handler.
\<close>

theorem authorization_header_from_token:
  "(env ''MCP_SERVER_TOKEN'' = Some token \<and> token \<noteq> [] \<longrightarrow>
      configure_headers (env ''MCP_SERVER_TOKEN'') (McpTool label url) s =
        ((McpTool label url)\<lparr>mcp_headers := [(''Authorization'', ''Bearer '' @ token)]\<rparr>, s)
      \<and> (main fuel C env s = Some (r, s') \<longrightarrow>
           (\<exists>ms. runs_created (snd s') = runs_created (snd s) @ ms
              \<and> (\<forall>m \<in> set ms. mcp_headers m = [(''Authorization'', ''Bearer '' @ token)])))
      \<and> (initialize C env h s = ((Inr True, h'), s2) \<longrightarrow>
           runs_created (snd s2) = runs_created (snd s)
           \<and> (\<exists>t. mcp_tool h' = Some t
                 \<and> mcp_headers t = [(''Authorization'', ''Bearer '' @ token)])))
   \<and> (env ''MCP_SERVER_TOKEN'' = None \<or> env ''MCP_SERVER_TOKEN'' = Some [] \<longrightarrow>
      configure_headers (env ''MCP_SERVER_TOKEN'') (McpTool label url) s =
        (McpTool label url,
         (fst s, snd s @ [Print ''Warning: No MCP_SERVER_TOKEN found in environment variables'']))
      \<and> mcp_headers (McpTool label url) = []
      \<and> (missing_vars env = [] \<longrightarrow>
           main fuel C env s =
             (case main_with_body fuel C env
                     (McpTool (env_value env ''MCP_SERVER_LABEL'') (env_value env ''MCP_SERVER_URL''))
                     (fst s, snd s @ [Print ''Warning: No MCP_SERVER_TOKEN found in environment variables'']) of
                None \<Rightarrow> None
              | Some (r, s1) \<Rightarrow> Some (r, (fst s1, snd s1 @ [ClientClose]))))
      \<and> (missing_vars env = []
           \<and> create_agent C (env_value env ''MODEL_DEPLOYMENT_NAME'') ''HomeAssistantMCPChatAgent''
                (chat_instructions (env_value env ''MCP_SERVER_URL'') (env_value env ''MCP_SERVER_LABEL''))
                (McpTool (env_value env ''MCP_SERVER_LABEL'') (env_value env ''MCP_SERVER_URL''))
                (fst s) = (Inr agent_id, w1)
           \<and> threads_create C w1 = (Inr thread_id, w2) \<longrightarrow>
           fst (fst (initialize C env h s)) = Inr True)
      \<and> (main fuel C env s = Some (r, s') \<longrightarrow>
           (\<exists>ms. runs_created (snd s') = runs_created (snd s) @ ms
              \<and> (\<forall>m \<in> set ms. mcp_headers m = [])))
      \<and> (initialize C env h s = ((Inr True, h'), s2) \<longrightarrow>
           runs_created (snd s2) = runs_created (snd s)
           \<and> (\<exists>t. mcp_tool h' = Some t \<and> mcp_headers t = [])))
   \<and> (send_message fuel C h content s = Some (rc, sc) \<longrightarrow>
        (\<exists>ms. runs_created (snd sc) = runs_created (snd s) @ ms
           \<and> (\<forall>m \<in> set ms. mcp_tool h = Some m)))"
proof -
  let ?cfg = "configure_headers (env ''MCP_SERVER_TOKEN'')
     (McpTool (env_value env ''MCP_SERVER_LABEL'') (env_value env ''MCP_SERVER_URL'')) s"
  let ?warn = "Print ''Warning: No MCP_SERVER_TOKEN found in environment variables''"
  have set_: "configure_headers (env ''MCP_SERVER_TOKEN'') (McpTool label url) s =
        ((McpTool label url)\<lparr>mcp_headers := [(''Authorization'', ''Bearer '' @ token)]\<rparr>, s)
      \<and> (main fuel C env s = Some (r, s') \<longrightarrow>
           (\<exists>ms. runs_created (snd s') = runs_created (snd s) @ ms
              \<and> (\<forall>m \<in> set ms. mcp_headers m = [(''Authorization'', ''Bearer '' @ token)])))
      \<and> (initialize C env h s = ((Inr True, h'), s2) \<longrightarrow>
           runs_created (snd s2) = runs_created (snd s)
           \<and> (\<exists>t. mcp_tool h' = Some t
                 \<and> mcp_headers t = [(''Authorization'', ''Bearer '' @ token)]))"
    if t: "env ''MCP_SERVER_TOKEN'' = Some token" "token \<noteq> []"
  proof -
    from t have hs: "mcp_headers (fst ?cfg) = [(''Authorization'', ''Bearer '' @ token)]"
      by (simp add: configure_headers_token)
    from t have "configure_headers (env ''MCP_SERVER_TOKEN'') (McpTool label url) s =
        ((McpTool label url)\<lparr>mcp_headers := [(''Authorization'', ''Bearer '' @ token)]\<rparr>, s)"
      by (simp add: configure_headers_token)
    with main_runs_created [of fuel C env s r s'] initialize_runs_created [of C env h s h' s2]
    show ?thesis unfolding hs by blast
  qed
  have unset: "configure_headers (env ''MCP_SERVER_TOKEN'') (McpTool label url) s =
        (McpTool label url, (fst s, snd s @ [?warn]))
      \<and> mcp_headers (McpTool label url) = []
      \<and> (missing_vars env = [] \<longrightarrow>
           main fuel C env s =
             (case main_with_body fuel C env
                     (McpTool (env_value env ''MCP_SERVER_LABEL'') (env_value env ''MCP_SERVER_URL''))
                     (fst s, snd s @ [?warn]) of
                None \<Rightarrow> None
              | Some (r, s1) \<Rightarrow> Some (r, (fst s1, snd s1 @ [ClientClose]))))
      \<and> (missing_vars env = []
           \<and> create_agent C (env_value env ''MODEL_DEPLOYMENT_NAME'') ''HomeAssistantMCPChatAgent''
                (chat_instructions (env_value env ''MCP_SERVER_URL'') (env_value env ''MCP_SERVER_LABEL''))
                (McpTool (env_value env ''MCP_SERVER_LABEL'') (env_value env ''MCP_SERVER_URL''))
                (fst s) = (Inr agent_id, w1)
           \<and> threads_create C w1 = (Inr thread_id, w2) \<longrightarrow>
           fst (fst (initialize C env h s)) = Inr True)
      \<and> (main fuel C env s = Some (r, s') \<longrightarrow>
           (\<exists>ms. runs_created (snd s') = runs_created (snd s) @ ms
              \<and> (\<forall>m \<in> set ms. mcp_headers m = [])))
      \<and> (initialize C env h s = ((Inr True, h'), s2) \<longrightarrow>
           runs_created (snd s2) = runs_created (snd s)
           \<and> (\<exists>t. mcp_tool h' = Some t \<and> mcp_headers t = []))"
    if t: "env ''MCP_SERVER_TOKEN'' = None \<or> env ''MCP_SERVER_TOKEN'' = Some []"
  proof -
    note cfg = configure_headers_no_token [OF t]
    have "mcp_headers (McpTool (env_value env ''MCP_SERVER_LABEL'') (env_value env ''MCP_SERVER_URL'')) = []"
      by (simp add: McpTool_def)
    then have hs: "mcp_headers (fst ?cfg) = []"
      by (simp add: cfg)
    have a: "mcp_headers (McpTool label url) = []"
      by (simp add: McpTool_def)
    have b: "main fuel C env s =
             (case main_with_body fuel C env
                     (McpTool (env_value env ''MCP_SERVER_LABEL'') (env_value env ''MCP_SERVER_URL''))
                     (fst s, snd s @ [?warn]) of
                None \<Rightarrow> None
              | Some (r, s1) \<Rightarrow> Some (r, (fst s1, snd s1 @ [ClientClose])))"
      if "missing_vars env = []"
      using that by (simp add: main_def cfg)
    have c: "fst (fst (initialize C env h s)) = Inr True"
      if "missing_vars env = []"
        "create_agent C (env_value env ''MODEL_DEPLOYMENT_NAME'') ''HomeAssistantMCPChatAgent''
                (chat_instructions (env_value env ''MCP_SERVER_URL'') (env_value env ''MCP_SERVER_LABEL''))
                (McpTool (env_value env ''MCP_SERVER_LABEL'') (env_value env ''MCP_SERVER_URL''))
                (fst s) = (Inr agent_id, w1)"
        "threads_create C w1 = (Inr thread_id, w2)"
      using that by (simp add: initialize_def cfg Let_def call_def)
    from cfg a b c main_runs_created [of fuel C env s r s']
      initialize_runs_created [of C env h s h' s2]
    show ?thesis unfolding hs by blast
  qed
  from set_ unset send_message_runs_created [of fuel C h content s rc sc]
  show ?thesis by blast
qed

theorem authorization_header_from_token_witness:
  "example_env (Some ''secret'') ''MCP_SERVER_TOKEN'' = Some ''secret'' \<and> ''secret'' \<noteq> []
   \<and> configure_headers (example_env (Some ''secret'') ''MCP_SERVER_TOKEN'')
        (McpTool ''home'' ''https://mcp'') (0::nat, []) =
       (\<lparr>server_label = ''home'', server_url = ''https://mcp'',
         mcp_headers = [(''Authorization'', ''Bearer secret'')], require_approval = ''always''\<rparr>,
        (0, []))
   \<and> example_env None ''MCP_SERVER_TOKEN'' = None
   \<and> configure_headers (example_env None ''MCP_SERVER_TOKEN'')
        (McpTool ''home'' ''https://mcp'') (0::nat, []) =
       (\<lparr>server_label = ''home'', server_url = ''https://mcp'', mcp_headers = [],
         require_approval = ''always''\<rparr>,
        (0, [Print ''Warning: No MCP_SERVER_TOKEN found in environment variables'']))
   \<and> map_option (\<lambda>(r, s). runs_created (snd s))
        (main 2 (scripted_client []) (example_env (Some ''secret'')) (0, [])) =
       Some [\<lparr>server_label = ''home'', server_url = ''https://mcp'',
              mcp_headers = [(''Authorization'', ''Bearer secret'')], require_approval = ''never''\<rparr>]"
proof -
  let ?env = "example_env (Some ''secret'')"
  have h: "?env ''MCP_SERVER_TOKEN'' = Some ''secret''" "''secret'' \<noteq> []"
    "example_env None ''MCP_SERVER_TOKEN'' = None"
    by (simp_all add: example_env_def)
  have m: "missing_vars ?env = []"
    by (simp add: missing_vars_def required_vars_def truthy_def example_env_def)
  have v: "env_value ?env ''MCP_SERVER_LABEL'' = ''home''"
    "env_value ?env ''MCP_SERVER_URL'' = ''https://mcp''"
    by (simp_all add: env_value_def example_env_def)
  have 1: "configure_headers (?env ''MCP_SERVER_TOKEN'') (McpTool ''home'' ''https://mcp'') (0::nat, []) =
        ((McpTool ''home'' ''https://mcp'')\<lparr>mcp_headers := [(''Authorization'', ''Bearer '' @ ''secret'')]\<rparr>,
         (0, []))"
    by (rule authorization_header_from_token
          [where env = "example_env (Some ''secret'')" and token = "''secret''" and label = "''home''"
             and url = "''https://mcp''" and s = "(0::nat, [])", THEN conjunct1, THEN mp, THEN conjunct1])
       (simp add: h)
  have 2: "configure_headers (example_env None ''MCP_SERVER_TOKEN'') (McpTool ''home'' ''https://mcp'') (0::nat, []) =
        (McpTool ''home'' ''https://mcp'',
         (0, [Print ''Warning: No MCP_SERVER_TOKEN found in environment variables'']))"
    using authorization_header_from_token
          [where env = "example_env None" and label = "''home''" and url = "''https://mcp''"
             and s = "(0::nat, [])", THEN conjunct2, THEN conjunct1, THEN mp, THEN conjunct1] h(3)
    by simp
  have 3: "map_option (\<lambda>(r, s). runs_created (snd s))
        (main 2 (scripted_client []) ?env (0, [])) =
       Some [\<lparr>server_label = ''home'', server_url = ''https://mcp'',
              mcp_headers = [(''Authorization'', ''Bearer secret'')], require_approval = ''never''\<rparr>]"
    using 1
    by (simp add: main_def m v main_with_body_def main_setup_def Let_def bindE_def call_def
          print_def prints_def return_def numeral_nat main_iteration_def main_report_def
          set_approval_mode_def scripted_client_def run_with_def active_statuses_def
          runs_created_append runs_created_Print McpTool_def)
  from h 1 2 3 show ?thesis
    by (simp add: McpTool_def)
qed

end
